theory Spec2Isabelle
  imports Complex_Main "HOL-Library.Multiset"
begin

section \<open>Characters and strings\<close>

text \<open>
  Python strings are modelled as HOL strings over the ASCII alphabet: the character
  classes below are the ASCII restrictions of \<^verbatim>\<open>str.isalpha\<close>, \<^verbatim>\<open>str.isdigit\<close>,
  \<^verbatim>\<open>str.upper\<close>, \<^verbatim>\<open>str.lower\<close> and of the whitespace that \<^verbatim>\<open>str.strip()\<close> removes.
\<close>

definition ascii_lowercase :: string where
  "ascii_lowercase = ''abcdefghijklmnopqrstuvwxyz''"

definition ascii_uppercase :: string where
  "ascii_uppercase = ''ABCDEFGHIJKLMNOPQRSTUVWXYZ''"

definition ascii_digits :: string where
  "ascii_digits = ''0123456789''"

definition is_upper :: "char \<Rightarrow> bool" where
  "is_upper c = (c \<in> set ascii_uppercase)"

definition is_alpha :: "char \<Rightarrow> bool" where
  "is_alpha c = (c \<in> set ascii_lowercase \<or> c \<in> set ascii_uppercase)"

definition is_digit :: "char \<Rightarrow> bool" where
  "is_digit c = (c \<in> set ascii_digits)"

definition is_space :: "char \<Rightarrow> bool" where
  "is_space c = (c \<in> set [CHR 0x09, CHR 0x0A, CHR 0x0B, CHR 0x0C, CHR 0x0D,
                             CHR 0x1C, CHR 0x1D, CHR 0x1E, CHR 0x1F, CHR 0x20])"

definition to_upper :: "char \<Rightarrow> char" where
  "to_upper c = (case map_of (zip ascii_lowercase ascii_uppercase) c of
                   Some u \<Rightarrow> u | None \<Rightarrow> c)"

definition to_lower :: "char \<Rightarrow> char" where
  "to_lower c = (case map_of (zip ascii_uppercase ascii_lowercase) c of
                   Some l \<Rightarrow> l | None \<Rightarrow> c)"

definition upper :: "string \<Rightarrow> string" where
  "upper s = map to_upper s"

definition lower :: "string \<Rightarrow> string" where
  "lower s = map to_lower s"

text \<open>\<^verbatim>\<open>s.isalpha()\<close> and \<^verbatim>\<open>s.isdigit()\<close> are false on the empty string.\<close>

definition isalpha :: "string \<Rightarrow> bool" where
  "isalpha s = (s \<noteq> [] \<and> list_all is_alpha s)"

definition isdigit :: "string \<Rightarrow> bool" where
  "isdigit s = (s \<noteq> [] \<and> list_all is_digit s)"

definition lstrip :: "(char \<Rightarrow> bool) \<Rightarrow> string \<Rightarrow> string" where
  "lstrip p s = dropWhile p s"

definition rstrip :: "(char \<Rightarrow> bool) \<Rightarrow> string \<Rightarrow> string" where
  "rstrip p s = rev (dropWhile p (rev s))"

definition strip :: "string \<Rightarrow> string" where
  "strip s = rstrip is_space (lstrip is_space s)"

text \<open>\<^verbatim>\<open>s.split(sep)\<close> for a one-character separator: never empty, keeps empty fields.\<close>

fun split_on :: "char \<Rightarrow> string \<Rightarrow> string list" where
  "split_on sep [] = [[]]"
| "split_on sep (c # cs) =
     (if c = sep then [] # split_on sep cs
      else (case split_on sep cs of
              [] \<Rightarrow> [[c]]
            | p # ps \<Rightarrow> (c # p) # ps))"

text \<open>\<^verbatim>\<open>s.split(sep)[0]\<close>: the list is never empty, so the index never fails.\<close>

definition first_field :: "char \<Rightarrow> string \<Rightarrow> string" where
  "first_field sep s = (case split_on sep s of [] \<Rightarrow> [] | p # _ \<Rightarrow> p)"

definition digit_val :: "char \<Rightarrow> int" where
  "digit_val c = (case map_of (zip ascii_digits [0, 1, 2, 3, 4, 5, 6, 7, 8, 9]) c of
                    Some d \<Rightarrow> d | None \<Rightarrow> 0)"

text \<open>\<^verbatim>\<open>int(part)\<close>, called only on strings of decimal digits.\<close>

definition int_of_digits :: "string \<Rightarrow> int" where
  "int_of_digits s = foldl (\<lambda>acc c. 10 * acc + digit_val c) 0 s"

section \<open>Country normalization\<close>

text \<open>
  The country catalog (\<^verbatim>\<open>pycountry\<close>), the continent tables (\<^verbatim>\<open>pycountry_convert\<close>) and the
  fuzzy matcher (\<^verbatim>\<open>thefuzz\<close>) are libraries outside the repository. They are parameters of
  the model; a call that raises is the value \<open>Inl\<close>.
\<close>

datatype py_exception = PyException string

record pyc_country =
  name :: string
  alpha_2 :: string

record catalog =
  countries_lookup :: "string \<Rightarrow> py_exception + pyc_country"
  country_names :: "string list"
  extractOne :: "string \<Rightarrow> string list \<Rightarrow> string \<times> int"
  country_alpha2_to_continent_code :: "string \<Rightarrow> py_exception + string"
  convert_continent_code_to_continent_name :: "string \<Rightarrow> py_exception + string"

definition REGION_TO_COUNTRY :: "(string \<times> string) list" where
  "REGION_TO_COUNTRY =
     [(''SARAWAK'', ''Malaysia''), (''KCH'', ''Malaysia''), (''MIRI'', ''Malaysia'')]"

text \<open>
  \<^verbatim>\<open>re.sub(r'(?<!^)(?=[A-Z])', ' ', s)\<close>: a space goes in front of every upper-case
  letter that is not the first character of the string.
\<close>

fun split_camel_case :: "string \<Rightarrow> string" where
  "split_camel_case [] = []"
| "split_camel_case (c # cs) =
     c # concat (map (\<lambda>d. if is_upper d then [CHR '' '', d] else [d]) cs)"

text \<open>The argument is \<open>None\<close> when the header parser found no country token.\<close>

definition normalize_country :: "catalog \<Rightarrow> string option \<Rightarrow> string" where
  "normalize_country cat raw_opt =
     (case raw_opt of
        None \<Rightarrow> ''Unknown''
      | Some raw0 \<Rightarrow>
          if raw0 = [] \<or> lower raw0 \<in> {''na'', ''''} then ''Unknown''
          else
            let raw = split_camel_case
                        (strip (first_field (CHR ''/'') (first_field (CHR ''_'') raw0)));
                raw_upper = upper raw
            in (case map_of REGION_TO_COUNTRY raw_upper of
                  Some c \<Rightarrow> c
                | None \<Rightarrow>
                    (case countries_lookup cat raw of
                       Inr entry \<Rightarrow> name entry
                     | Inl _ \<Rightarrow>
                         (let (best, score) = extractOne cat raw (country_names cat)
                          in if score \<ge> 80 then best else ''Unknown''))))"

text \<open>The body of the \<^verbatim>\<open>try\<close> block of \<^verbatim>\<open>country_to_continent\<close>: each of its three calls may raise.\<close>

definition continent_lookup :: "catalog \<Rightarrow> string \<Rightarrow> py_exception + string" where
  "continent_lookup cat c =
     (case countries_lookup cat c of
        Inl e \<Rightarrow> Inl e
      | Inr entry \<Rightarrow>
          (case country_alpha2_to_continent_code cat (alpha_2 entry) of
             Inl e \<Rightarrow> Inl e
           | Inr code \<Rightarrow> convert_continent_code_to_continent_name cat code))"

definition country_to_continent :: "catalog \<Rightarrow> string \<Rightarrow> string" where
  "country_to_continent cat c =
     (if c = ''Unknown'' then ''Unknown''
      else (case continent_lookup cat c of
              Inl _ \<Rightarrow> ''Unknown''
            | Inr cont \<Rightarrow> cont))"

section \<open>Header parser\<close>

text \<open>\<^verbatim>\<open>YEAR_RE.fullmatch(part)\<close> for the pattern \<^verbatim>\<open>(19|20)\d{2}\<close>.\<close>

definition year_fullmatch :: "string \<Rightarrow> bool" where
  "year_fullmatch part =
     (case part of
        [a, b, c, d] \<Rightarrow> ([a, b] = ''19'' \<or> [a, b] = ''20'') \<and> is_digit c \<and> is_digit d
      | _ \<Rightarrow> False)"

text \<open>The third component of the parser's result: an integer, or the string "Unknown".\<close>

datatype year_field = Year int | YearUnknown

text \<open>One turn of the loop over the segments of a pipe-delimited header.\<close>

definition pipe_step :: "string option \<times> int option \<Rightarrow> string \<Rightarrow> string option \<times> int option" where
  "pipe_step st part =
     (case st of (raw_country, year) \<Rightarrow>
        if year_fullmatch part then (raw_country, Some (int_of_digits part))
        else if isalpha part \<or> CHR ''_'' \<in> set part then (Some part, year)
        else (raw_country, year))"

text \<open>One turn of the loop over the segments of a slash-delimited header.\<close>

definition slash_step :: "int option \<Rightarrow> string \<Rightarrow> int option" where
  "slash_step year part =
     (if isdigit part
      then Some (if length part = 2 then 2000 + int_of_digits part else int_of_digits part)
      else year)"

text \<open>
  The \<^verbatim>\<open>verbose\<close> flag only adds a log line and is left out. \<^verbatim>\<open>x or "Unknown"\<close>
  replaces \<^verbatim>\<open>None\<close>, the empty string and the integer 0.
\<close>

definition parse_header :: "catalog \<Rightarrow> string \<Rightarrow> string \<times> string \<times> year_field" where
  "parse_header cat header0 =
     (let header = strip (filter (\<lambda>c. c \<noteq> CHR ''>'') header0);
          (raw_country, year) =
             (if CHR ''|'' \<in> set header
              then foldl pipe_step (None, None) (split_on (CHR ''|'') header)
              else if CHR ''/'' \<in> set header
              then (Some ''Malaysia'', foldl slash_step None (split_on (CHR ''/'') header))
              else (None, None));
          country = normalize_country cat raw_country
      in ((case raw_country of
             None \<Rightarrow> ''Unknown''
           | Some r \<Rightarrow> if r = [] then ''Unknown'' else r),
          country,
          (case year of
             None \<Rightarrow> YearUnknown
           | Some y \<Rightarrow> if y = 0 then YearUnknown else Year y)))"

definition extract_subgenotype :: "string \<Rightarrow> string" where
  "extract_subgenotype header =
     (if CHR ''#'' \<in> set header then first_field (CHR ''#'') header else ''Unknown'')"

section \<open>Sequence processing\<close>

text \<open>
  \<^verbatim>\<open>seq[i:j]\<close> with Python's rules for slice bounds: a negative bound counts from the
  end, and every bound is clamped into \<open>0..len\<close>.
\<close>

definition slice_bound :: "nat \<Rightarrow> int \<Rightarrow> nat" where
  "slice_bound n i =
     (if i < 0 then (if int n + i < 0 then 0 else nat (int n + i))
      else if i > int n then n else nat i)"

definition py_slice :: "'a list \<Rightarrow> int \<Rightarrow> int \<Rightarrow> 'a list" where
  "py_slice xs i j =
     (let lo = slice_bound (length xs) i; hi = slice_bound (length xs) j
      in drop lo (take hi xs))"

text \<open>Python's truth value of an optional integer argument: \<^verbatim>\<open>None\<close> and 0 are false.\<close>

definition truthy :: "int option \<Rightarrow> bool" where
  "truthy v = (case v of None \<Rightarrow> False | Some i \<Rightarrow> i \<noteq> 0)"

text \<open>\<^verbatim>\<open>seq.upper().lstrip("N").rstrip("N")\<close>\<close>

definition n_trimmed :: "string \<Rightarrow> string" where
  "n_trimmed seq0 = rstrip (\<lambda>c. c = CHR ''N'') (lstrip (\<lambda>c. c = CHR ''N'') (upper seq0))"

text \<open>The optional slice: a false bound defaults to the start or the end of the sequence.\<close>

definition window :: "string \<Rightarrow> int option \<Rightarrow> int option \<Rightarrow> string" where
  "window seq1 start stop =
     (if truthy start \<or> truthy stop
      then py_slice seq1
             (case start of None \<Rightarrow> 0 | Some s \<Rightarrow> if s \<noteq> 0 then s - 1 else 0)
             (case stop of None \<Rightarrow> int (length seq1)
                         | Some e \<Rightarrow> if e \<noteq> 0 then e else int (length seq1))
      else seq1)"

text \<open>Truncation to a whole number of codons.\<close>

definition framed :: "string \<Rightarrow> string" where
  "framed seq2 = (let L = length seq2 - (length seq2 mod 3) in take L seq2)"

definition process_sequence :: "string \<Rightarrow> int option \<Rightarrow> int option \<Rightarrow> string option" where
  "process_sequence seq0 start stop =
     (let seq1 = n_trimmed seq0;
          seq2 = window seq1 start stop;
          seq3 = framed seq2
      in if length seq3 \<ge> 90 then Some seq3 else None)"

section \<open>Floating-point numbers\<close>

text \<open>
  Python's \<^verbatim>\<open>float\<close> is IEEE 754 binary64: the finite values (a positive zero among
  them), a negative zero, two infinities and NaN. Arithmetic rounds the exact result to the
  nearest representable value, ties to the even significand.
\<close>

datatype pyfloat = Finite real | NegZero | PosInf | NegInf | NaN

fun bit_length :: "nat \<Rightarrow> nat" where
  "bit_length n = (if n = 0 then 0 else Suc (bit_length (n div 2)))"

declare bit_length.simps [simp del]

definition pow2 :: "int \<Rightarrow> real" where
  "pow2 e = (if e \<ge> 0 then 2 ^ nat e else 1 / 2 ^ nat (- e))"

text \<open>The binary exponent of a positive number \<open>x\<close>: \<open>2 ^ e \<le> x < 2 ^ (e + 1)\<close>.\<close>

definition floor_log2 :: "real \<Rightarrow> int" where
  "floor_log2 x =
     (if x \<ge> 1 then int (bit_length (nat \<lfloor>x\<rfloor>)) - 1
      else - int (bit_length (nat (\<lceil>1 / x\<rceil> - 1))))"

definition round_half_even :: "real \<Rightarrow> int" where
  "round_half_even x =
     (let f = \<lfloor>x\<rfloor>; d = x - of_int f
      in if d < 1 / 2 then f
         else if d > 1 / 2 then f + 1
         else if even f then f else f + 1)"

text \<open>
  Rounding to binary64: 53 significant bits, the least exponent \<open>-1022\<close> (below it the
  spacing stays \<open>2 ^ -1074\<close>), overflow to infinity from \<open>2 ^ 1024\<close> on.
\<close>

definition round_binary64 :: "real \<Rightarrow> pyfloat" where
  "round_binary64 x =
     (if x = 0 then Finite 0
      else
        let a = \<bar>x\<bar>;
            e = max (floor_log2 a) (- 1022);
            ulp = pow2 (e - 52);
            r = of_int (round_half_even (a / ulp)) * ulp
        in if r \<ge> pow2 1024 then (if x > 0 then PosInf else NegInf)
           else if r = 0 then (if x > 0 then Finite 0 else NegZero)
           else Finite (if x > 0 then r else - r))"

definition sign_bit :: "pyfloat \<Rightarrow> bool" where
  "sign_bit x = (case x of Finite r \<Rightarrow> r < 0 | NegZero \<Rightarrow> True | PosInf \<Rightarrow> False
                         | NegInf \<Rightarrow> True | NaN \<Rightarrow> False)"

text \<open>\<^verbatim>\<open>x == 0\<close>: true of both zeros.\<close>

definition is_zero :: "pyfloat \<Rightarrow> bool" where
  "is_zero x = (x = Finite 0 \<or> x = NegZero)"

definition is_inf :: "pyfloat \<Rightarrow> bool" where
  "is_inf x = (x = PosInf \<or> x = NegInf)"

definition signed_zero :: "bool \<Rightarrow> pyfloat" where
  "signed_zero negative = (if negative then NegZero else Finite 0)"

definition signed_inf :: "bool \<Rightarrow> pyfloat" where
  "signed_inf negative = (if negative then NegInf else PosInf)"

text \<open>\<^verbatim>\<open>x + y\<close> on floats; it never raises.\<close>

fun float_add :: "pyfloat \<Rightarrow> pyfloat \<Rightarrow> pyfloat" where
  "float_add NaN y = NaN"
| "float_add x NaN = NaN"
| "float_add PosInf NegInf = NaN"
| "float_add NegInf PosInf = NaN"
| "float_add PosInf y = PosInf"
| "float_add x PosInf = PosInf"
| "float_add NegInf y = NegInf"
| "float_add x NegInf = NegInf"
| "float_add NegZero y = y"
| "float_add x NegZero = x"
| "float_add (Finite a) (Finite b) = round_binary64 (a + b)"

text \<open>\<^verbatim>\<open>x / y\<close> on floats raises \<^verbatim>\<open>ZeroDivisionError\<close> when the divisor is a zero.\<close>

definition float_div :: "pyfloat \<Rightarrow> pyfloat \<Rightarrow> py_exception + pyfloat" where
  "float_div x y =
     (if is_zero y then Inl (PyException ''ZeroDivisionError'')
      else Inr
        (if x = NaN \<or> y = NaN then NaN
         else if is_inf x
              then (if is_inf y then NaN else signed_inf (sign_bit x \<noteq> sign_bit y))
         else if is_inf y \<or> is_zero x then signed_zero (sign_bit x \<noteq> sign_bit y)
         else (case (x, y) of
                 (Finite a, Finite b) \<Rightarrow> round_binary64 (a / b)
               | _ \<Rightarrow> NaN)))"

text \<open>
  The conversion of a list length to a float, as in \<^verbatim>\<open>total / len(vals)\<close>. (Python
  raises \<^verbatim>\<open>OverflowError\<close> from \<open>2 ^ 1024\<close> on, which no list length reaches.)
\<close>

definition float_of_nat :: "nat \<Rightarrow> pyfloat" where
  "float_of_nat n = round_binary64 (of_nat n)"

text \<open>
  \<^verbatim>\<open>sum(...)\<close> over floats starts from the integer 0, and \<^verbatim>\<open>0 + x\<close> converts the 0 to
  the float \<open>+0.0\<close>; the terms are added from left to right.
\<close>

definition py_sum :: "pyfloat list \<Rightarrow> pyfloat" where
  "py_sum xs = foldl float_add (Finite 0) xs"

section \<open>Records, arguments and tasks\<close>

record fasta_record =
  fa_id :: string
  description :: string
  fa_seq :: string

record args =
  args_output :: string
  args_gene :: "string option"
  args_start :: "int option"
  args_stop :: "int option"
  args_genetic_code :: int
  args_method :: string
  args_verbose :: bool
  args_save_trimmed_fasta :: bool

record seq_record =
  rec_id :: string
  seq :: string
  country :: string
  continent :: string
  year :: year_field
  subgenotype :: string

text \<open>One turn of the loop over the FASTA records: a rejected sequence adds no record.\<close>

definition make_record :: "catalog \<Rightarrow> args \<Rightarrow> fasta_record \<Rightarrow> seq_record option" where
  "make_record cat a r =
     (let (raw, ctry, yr) = parse_header cat (description r)
      in (case process_sequence (fa_seq r) (args_start a) (args_stop a) of
            None \<Rightarrow> None
          | Some s \<Rightarrow>
              Some \<lparr>rec_id = fa_id r, seq = s, country = ctry,
                    continent = country_to_continent cat ctry, year = yr,
                    subgenotype = extract_subgenotype (description r)\<rparr>))"

text \<open>\<^verbatim>\<open>Series.unique()\<close>: the distinct values in order of first appearance.\<close>

primrec unique :: "'a list \<Rightarrow> 'a list" where
  "unique [] = []"
| "unique (x # xs) = x # filter (\<lambda>y. y \<noteq> x) (unique xs)"

text \<open>\<^verbatim>\<open>itertools.combinations(xs, 2)\<close>: the pairs of positions \<open>i < j\<close>, in lexicographic order.\<close>

fun combinations2 :: "'a list \<Rightarrow> ('a \<times> 'a) list" where
  "combinations2 [] = []"
| "combinations2 (x # xs) = map (Pair x) xs @ combinations2 xs"

type_synonym task = "string \<times> string \<times> string \<times> string \<times> int \<times> string \<times> bool"

definition countries_of :: "seq_record list \<Rightarrow> string list" where
  "countries_of df = filter (\<lambda>c. c \<noteq> ''Unknown'') (unique (map country df))"

text \<open>\<^verbatim>\<open>df[df.country == c].seq\<close>\<close>

definition seqs_of :: "seq_record list \<Rightarrow> string \<Rightarrow> string list" where
  "seqs_of df c = map seq (filter (\<lambda>r. country r = c) df)"

definition mk_task :: "args \<Rightarrow> string \<Rightarrow> string \<Rightarrow> string \<times> string \<Rightarrow> task" where
  "mk_task a c1 c2 p =
     (fst p, snd p, c1, c2, args_genetic_code a, args_method a, args_verbose a)"

definition cross_tasks :: "args \<Rightarrow> seq_record list \<Rightarrow> string \<times> string \<Rightarrow> task list" where
  "cross_tasks a df cc =
     (case cc of (c1, c2) \<Rightarrow>
        concat (map (\<lambda>x. map (\<lambda>y. mk_task a c1 c2 (x, y)) (seqs_of df c2)) (seqs_of df c1)))"

definition within_tasks :: "args \<Rightarrow> seq_record list \<Rightarrow> string \<Rightarrow> task list" where
  "within_tasks a df c = map (mk_task a c c) (combinations2 (seqs_of df c))"

definition make_tasks :: "args \<Rightarrow> seq_record list \<Rightarrow> task list" where
  "make_tasks a df =
     (let countries = countries_of df
      in concat (map (cross_tasks a df) (combinations2 countries))
         @ concat (map (within_tasks a df) countries))"

section \<open>The KaKs\_Calculator runner\<close>

definition write_fasta :: "string \<Rightarrow> string \<Rightarrow> string" where
  "write_fasta seq1 seq2 =
     ''>seq1'' @ [CHR 0x0A] @ seq1 @ ''N'' @ [CHR 0x0A] @
     ''>seq2'' @ [CHR 0x0A] @ seq2 @ ''N'' @ [CHR 0x0A]"

text \<open>
  The external program and the reading of its output table are a parameter: from the
  contents of the input file, the genetic code and the method to the exit status and the
  \<^verbatim>\<open>Ka\<close> and \<^verbatim>\<open>Ks\<close> read from the first row (\<open>Inl\<close> when reading them raises). The model
  takes it that the program can be started.
\<close>

record proc_result =
  returncode :: int
  parsed :: "py_exception + pyfloat \<times> pyfloat"

type_synonym kaks_calculator = "string \<Rightarrow> int \<Rightarrow> string \<Rightarrow> proc_result"

type_synonym pair_result = "string \<times> string \<times> pyfloat \<times> pyfloat"

definition run_kaks_worker :: "kaks_calculator \<Rightarrow> task \<Rightarrow> pair_result option" where
  "run_kaks_worker calc t =
     (case t of (seq1, seq2, gA, gB, genetic_code, method, verbose) \<Rightarrow>
        let proc = calc (write_fasta seq1 seq2) genetic_code method
        in if returncode proc \<noteq> 0 then None
           else (case parsed proc of
                   Inr (ka, ks) \<Rightarrow> Some (gA, gB, ka, ks)
                 | Inl _ \<Rightarrow> None))"

section \<open>Aggregation\<close>

type_synonym agg = "((string \<times> string) \<times> (pyfloat \<times> pyfloat) list) list"

text \<open>
  \<^verbatim>\<open>agg.setdefault(k, []).append(v)\<close> on a dictionary that keeps its keys in insertion
  order: a new key goes to the end, a known key keeps its place.
\<close>

fun setdefault_append :: "agg \<Rightarrow> string \<times> string \<Rightarrow> pyfloat \<times> pyfloat \<Rightarrow> agg" where
  "setdefault_append [] k v = [(k, [v])]"
| "setdefault_append ((k', vs) # rest) k v =
     (if k' = k then (k', vs @ [v]) # rest else (k', vs) # setdefault_append rest k v)"

definition agg_step :: "agg \<Rightarrow> pair_result option \<Rightarrow> agg" where
  "agg_step ag r =
     (case r of
        None \<Rightarrow> ag
      | Some (gA, gB, ka, ks) \<Rightarrow> setdefault_append ag (gA, gB) (ka, ks))"

definition build_agg :: "pair_result option list \<Rightarrow> agg" where
  "build_agg results = foldl agg_step [] results"

record row =
  Group_A :: string
  Group_B :: string
  Continent_A :: string
  Continent_B :: string
  mean_Ka :: pyfloat
  mean_Ks :: pyfloat
  Ka_Ks :: pyfloat
  pairs :: int
  gene :: "string option"
  start :: "int option"
  stop :: "int option"

text \<open>The dictionary \<^verbatim>\<open>base\<close> of one turn of the loop over \<^verbatim>\<open>agg.items()\<close>.\<close>

definition base_row ::
  "catalog \<Rightarrow> args \<Rightarrow> (string \<times> string) \<times> (pyfloat \<times> pyfloat) list \<Rightarrow> py_exception + row" where
  "base_row cat a g =
     (case g of ((gA, gB), vals) \<Rightarrow>
        (case float_div (py_sum (map fst vals)) (float_of_nat (length vals)) of
           Inl e \<Rightarrow> Inl e
         | Inr m_ka \<Rightarrow>
             (case float_div (py_sum (map snd vals)) (float_of_nat (length vals)) of
                Inl e \<Rightarrow> Inl e
              | Inr m_ks \<Rightarrow>
                  (case (if is_zero m_ks then Inr PosInf else float_div m_ka m_ks) of
                     Inl e \<Rightarrow> Inl e
                   | Inr ratio \<Rightarrow>
                       Inr \<lparr>Group_A = gA, Group_B = gB,
                            Continent_A = country_to_continent cat gA,
                            Continent_B = country_to_continent cat gB,
                            mean_Ka = m_ka, mean_Ks = m_ks, Ka_Ks = ratio,
                            pairs = int (length vals),
                            gene = args_gene a, start = args_start a,
                            stop = args_stop a\<rparr>))))"

text \<open>The second dictionary, appended when the two groups differ.\<close>

definition mirror_row :: "row \<Rightarrow> row" where
  "mirror_row base =
     base\<lparr>Group_A := Group_B base, Group_B := Group_A base,
          Continent_A := Continent_B base, Continent_B := Continent_A base\<rparr>"

definition emit_rows ::
  "catalog \<Rightarrow> args \<Rightarrow> (string \<times> string) \<times> (pyfloat \<times> pyfloat) list \<Rightarrow> py_exception + row list" where
  "emit_rows cat a g =
     (case base_row cat a g of
        Inl e \<Rightarrow> Inl e
      | Inr base \<Rightarrow>
          Inr (if fst (fst g) \<noteq> snd (fst g) then [base, mirror_row base] else [base]))"

fun make_rows :: "catalog \<Rightarrow> args \<Rightarrow> agg \<Rightarrow> py_exception + row list" where
  "make_rows cat a [] = Inr []"
| "make_rows cat a (g # gs) =
     (case emit_rows cat a g of
        Inl e \<Rightarrow> Inl e
      | Inr rs \<Rightarrow>
          (case make_rows cat a gs of
             Inl e \<Rightarrow> Inl e
           | Inr rest \<Rightarrow> Inr (rs @ rest)))"

text \<open>Lines 235 to 274 of the script, without the exit on an empty dictionary.\<close>

definition aggregate ::
  "catalog \<Rightarrow> args \<Rightarrow> pair_result option list \<Rightarrow> py_exception + row list" where
  "aggregate cat a results = make_rows cat a (build_agg results)"

section \<open>The main program\<close>

datatype failure = SysExit int string | Uncaught py_exception

record run_output =
  csv_rows :: "row list"
  trimmed_fasta :: "(string \<times> string) list option"

definition trimmed_entry :: "seq_record \<Rightarrow> string \<times> string" where
  "trimmed_entry r =
     (rec_id r @ ''_'' @ map (\<lambda>c. if c = CHR '' '' then CHR ''_'' else c) (country r), seq r)"

text \<open>The loop over the FASTA records: the records of the sequences that pass the filter.\<close>

definition load_records :: "catalog \<Rightarrow> args \<Rightarrow> fasta_record list \<Rightarrow> seq_record list" where
  "load_records cat a fasta = List.map_filter (make_record cat a) fasta"

text \<open>
  The run: its input is the list of records that the FASTA reader yields, its result either
  a failure (nothing is written) or what is written to the output files.
\<close>

definition main ::
  "catalog \<Rightarrow> kaks_calculator \<Rightarrow> args \<Rightarrow> fasta_record list \<Rightarrow> failure + run_output" where
  "main cat calc a fasta =
     (let records = load_records cat a fasta
      in if records = [] then Inl (SysExit 1 ''No usable sequences after filtering'')
         else
           let tasks = make_tasks a records;
               results = map (run_kaks_worker calc) tasks;
               ag = build_agg results
           in if ag = [] then Inl (SysExit 1 ''KaKs_Calculator produced zero usable results'')
              else (case make_rows cat a ag of
                      Inl e \<Rightarrow> Inl (Uncaught e)
                    | Inr rows \<Rightarrow>
                        Inr \<lparr>csv_rows = rows,
                             trimmed_fasta =
                               (if args_save_trimmed_fasta a
                                then Some (map trimmed_entry records) else None)\<rparr>))"

section \<open>A small catalog for closed examples\<close>

text \<open>
  Three countries, looked up without regard to case by name or two-letter code, and a
  matcher that finds nothing similar (score 0).
\<close>

definition sample_lookup :: "string \<Rightarrow> py_exception + pyc_country" where
  "sample_lookup s =
     (case map_of [(''malaysia'', \<lparr>name = ''Malaysia'', alpha_2 = ''MY''\<rparr>),
                   (''my'', \<lparr>name = ''Malaysia'', alpha_2 = ''MY''\<rparr>),
                   (''japan'', \<lparr>name = ''Japan'', alpha_2 = ''JP''\<rparr>),
                   (''jp'', \<lparr>name = ''Japan'', alpha_2 = ''JP''\<rparr>),
                   (''kenya'', \<lparr>name = ''Kenya'', alpha_2 = ''KE''\<rparr>),
                   (''ke'', \<lparr>name = ''Kenya'', alpha_2 = ''KE''\<rparr>)] (lower s) of
        None \<Rightarrow> Inl (PyException ''LookupError'')
      | Some c \<Rightarrow> Inr c)"

definition sample_catalog :: catalog where
  "sample_catalog =
     \<lparr>countries_lookup = sample_lookup,
      country_names = [''Malaysia'', ''Japan'', ''Kenya''],
      extractOne = (\<lambda>q names. (case names of [] \<Rightarrow> ([], 0) | n # _ \<Rightarrow> (n, 0))),
      country_alpha2_to_continent_code =
        (\<lambda>a. if a = ''MY'' \<or> a = ''JP'' then Inr ''AS''
             else if a = ''KE'' then Inr ''AF''
             else Inl (PyException ''KeyError'')),
      convert_continent_code_to_continent_name =
        (\<lambda>c. if c = ''AS'' then Inr ''Asia''
             else if c = ''AF'' then Inr ''Africa''
             else Inl (PyException ''KeyError''))\<rparr>"

text \<open>The two group labels of a task.\<close>

definition task_label :: "task \<Rightarrow> string \<times> string" where
  "task_label t = (case t of (seq1, seq2, gA, gB, rest) \<Rightarrow> (gA, gB))"

section \<open>Sample arguments and records for closed examples\<close>

definition sample_args :: args where
  "sample_args =
     \<lparr>args_output = ''dnds_output.csv'', args_gene = None, args_start = None,
      args_stop = None, args_genetic_code = 1, args_method = ''YN'', args_verbose = False,
      args_save_trimmed_fasta = False\<rparr>"

definition sample_record :: "string \<Rightarrow> char \<Rightarrow> seq_record" where
  "sample_record c base =
     \<lparr>rec_id = [base], seq = replicate 90 base, country = c, continent = ''Unknown'',
      year = YearUnknown, subgenotype = ''Unknown''\<rparr>"

definition sample_df :: "seq_record list" where
  "sample_df =
     [sample_record ''A'' (CHR ''A''), sample_record ''A'' (CHR ''C''),
      sample_record ''B'' (CHR ''G''), sample_record ''B'' (CHR ''T''),
      sample_record ''B'' (CHR ''R''), sample_record ''C'' (CHR ''Y'')]"

section \<open>Grouping of results, for the statements\<close>

text \<open>The results that are not \<^verbatim>\<open>None\<close>, in arrival order.\<close>

definition successes :: "pair_result option list \<Rightarrow> pair_result list" where
  "successes results = concat (map (\<lambda>r. case r of None \<Rightarrow> [] | Some x \<Rightarrow> [x]) results)"

definition result_label :: "pair_result \<Rightarrow> string \<times> string" where
  "result_label r = (case r of (gA, gB, ka, ks) \<Rightarrow> (gA, gB))"

definition result_vals :: "pair_result \<Rightarrow> pyfloat \<times> pyfloat" where
  "result_vals r = (case r of (gA, gB, ka, ks) \<Rightarrow> (ka, ks))"

text \<open>The \<open>(Ka, Ks)\<close> pairs of the results that carry the label \<open>k\<close>, in arrival order.\<close>

definition group_vals :: "string \<times> string \<Rightarrow> pair_result option list \<Rightarrow> (pyfloat \<times> pyfloat) list" where
  "group_vals k results =
     map result_vals (filter (\<lambda>r. result_label r = k) (successes results))"

text \<open>The rows that one aggregate contributes, from its computed row.\<close>

definition rows_of_base :: "row \<Rightarrow> row list" where
  "rows_of_base b = (if Group_A b \<noteq> Group_B b then [b, mirror_row b] else [b])"

text \<open>The keys of the dictionary \<^verbatim>\<open>agg\<close>: the labels of the results, in order of first arrival.\<close>

definition agg_keys :: "pair_result option list \<Rightarrow> (string \<times> string) list" where
  "agg_keys results = unique (map result_label (successes results))"

text \<open>The fields of a row that are not floating-point numbers.\<close>

definition row_labels ::
  "row \<Rightarrow> string \<times> string \<times> string \<times> string \<times> int \<times> string option \<times> int option \<times> int option" where
  "row_labels r =
     (Group_A r, Group_B r, Continent_A r, Continent_B r, pairs r, gene r, start r, stop r)"

section \<open>Sample results for closed examples\<close>

text \<open>
  Two results for the pair \<open>(A, B)\<close> with \<open>Ka\<close> 0.2 and 0.4 and \<open>Ks\<close> 0.1: the decimal
  numerals are read as Python reads them, rounded to binary64.
\<close>

definition example_results :: "pair_result option list" where
  "example_results =
     [Some (''A'', ''B'', round_binary64 (2 / 10), round_binary64 (1 / 10)),
      Some (''A'', ''B'', round_binary64 (4 / 10), round_binary64 (1 / 10))]"

text \<open>
  The row computed from them: the mean \<open>Ka\<close> is the float that Python prints as
  \<^verbatim>\<open>0.30000000000000004\<close>, the mean \<open>Ks\<close> the float \<^verbatim>\<open>0.1\<close>, the ratio
  \<^verbatim>\<open>3.0000000000000004\<close>.
\<close>

definition example_row :: row where
  "example_row =
     \<lparr>Group_A = ''A'', Group_B = ''B'', Continent_A = ''Unknown'', Continent_B = ''Unknown'',
      mean_Ka = Finite (1351079888211149 / 4503599627370496),
      mean_Ks = Finite (3602879701896397 / 36028797018963968),
      Ka_Ks = Finite (6755399441055745 / 2251799813685248),
      pairs = 2, gene = None, start = None, stop = None\<rparr>"

text \<open>Results whose order of arrival shows in the output.\<close>

definition order_example :: "pair_result option list" where
  "order_example =
     [Some (''Malaysia'', ''Malaysia'', Finite 1, Finite 1),
      Some (''Kenya'', ''Kenya'', Finite 1, Finite 1)]"

definition sum_example :: "pair_result option list" where
  "sum_example =
     [Some (''Kenya'', ''Kenya'', round_binary64 (1 / 10), Finite 1),
      Some (''Kenya'', ''Kenya'', round_binary64 (2 / 10), Finite 1),
      Some (''Kenya'', ''Kenya'', round_binary64 (3 / 10), Finite 1)]"

definition mirror_example :: "pair_result option list" where
  "mirror_example =
     [Some (''Malaysia'', ''Kenya'', Finite 1, Finite 2), None,
      Some (''Kenya'', ''Kenya'', Finite 1, Finite 1)]"

section \<open>Sample input and external programs for closed examples\<close>

definition sample_fasta :: "fasta_record list" where
  "sample_fasta =
     [\<lparr>fa_id = ''s1'', description = ''Malaysia|2015'', fa_seq = replicate 90 (CHR ''A'')\<rparr>,
      \<lparr>fa_id = ''s2'', description = ''Kenya|2016'', fa_seq = replicate 90 (CHR ''C'')\<rparr>,
      \<lparr>fa_id = ''s3'', description = ''Kenya|2017'', fa_seq = replicate 90 (CHR ''G'')\<rparr>]"

definition short_fasta :: "fasta_record list" where
  "short_fasta = [\<lparr>fa_id = ''s1'', description = ''Malaysia|2015'', fa_seq = ''ATG''\<rparr>]"

text \<open>A program that always exits with status 1, and one that fails on every input with a base \<open>C\<close>.\<close>

definition failing_calc :: kaks_calculator where
  "failing_calc input genetic_code method =
     \<lparr>returncode = 1, parsed = Inl (PyException ''EmptyDataError'')\<rparr>"

definition partial_calc :: kaks_calculator where
  "partial_calc input genetic_code method =
     (if CHR ''C'' \<in> set input
      then \<lparr>returncode = 1, parsed = Inl (PyException ''EmptyDataError'')\<rparr>
      else \<lparr>returncode = 0, parsed = Inr (Finite 1, Finite 2)\<rparr>)"

section \<open>Header parsing and country normalization: properties\<close>

lemmas char_class_defs =
  is_upper_def is_alpha_def is_digit_def is_space_def to_upper_def to_lower_def
  upper_def lower_def ascii_lowercase_def ascii_uppercase_def ascii_digits_def

lemmas string_defs =
  isalpha_def isdigit_def lstrip_def rstrip_def strip_def first_field_def
  int_of_digits_def digit_val_def

text \<open>
  The camel-case split turns the all-capitals token \<open>KCH\<close> into \<open>K C H\<close>, which is not a
  key of \<open>REGION_TO_COUNTRY\<close>: the country of \<open>KCH_strain\<close> is left to the catalog and the
  fuzzy matcher.
\<close>

lemma normalize_country_KCH_strain:
  "normalize_country cat (Some ''KCH_strain'') =
     (case countries_lookup cat ''K C H'' of
        Inr entry \<Rightarrow> name entry
      | Inl _ \<Rightarrow> (let (best, score) = extractOne cat ''K C H'' (country_names cat)
                  in if score \<ge> 80 then best else ''Unknown''))"
  by (simp add: normalize_country_def REGION_TO_COUNTRY_def char_class_defs string_defs Let_def)




text \<open>
  Claim C8: the empty token and the token \<open>NA\<close> in any capitalization normalize to
  \<open>Unknown\<close>, as does an absent token; the continent of \<open>Unknown\<close> is \<open>Unknown\<close>; and when
  any call of the continent lookup raises, the result is \<open>Unknown\<close>.
\<close>

theorem unknown_country_and_continent:
  "normalize_country cat (Some []) = ''Unknown''
   \<and> normalize_country cat (Some ''NA'') = ''Unknown''
   \<and> (lower raw = ''na'' \<longrightarrow> normalize_country cat (Some raw) = ''Unknown'')
   \<and> normalize_country cat None = ''Unknown''
   \<and> country_to_continent cat ''Unknown'' = ''Unknown''
   \<and> (continent_lookup cat c = Inl e \<longrightarrow> country_to_continent cat c = ''Unknown'')"
  by (simp add: normalize_country_def country_to_continent_def char_class_defs)

theorem unknown_country_and_continent_witness:
  "lower ''nA'' = ''na'' \<and> normalize_country sample_catalog (Some ''nA'') = ''Unknown''
   \<and> continent_lookup sample_catalog ''Atlantis'' = Inl (PyException ''LookupError'')
   \<and> country_to_continent sample_catalog ''Atlantis'' = ''Unknown''"
proof -
  have l: "lower ''nA'' = ''na''"
    by (simp add: char_class_defs)
  have f: "continent_lookup sample_catalog ''Atlantis'' = Inl (PyException ''LookupError'')"
    by (simp add: continent_lookup_def sample_catalog_def sample_lookup_def char_class_defs)
  from unknown_country_and_continent
         [of sample_catalog "''nA''" "''Atlantis''" "PyException ''LookupError''"] l f
  show ?thesis by simp
qed

section \<open>Sequence filter: properties\<close>

lemma length_framed_mod_3: "length (framed s) mod 3 = 0"
  by (simp add: framed_def Let_def min_def) presburger

lemma n_trimmed_all_N: "n_trimmed (replicate n (CHR ''N'')) = []"
  by (simp add: n_trimmed_def lstrip_def rstrip_def upper_def to_upper_def
      ascii_lowercase_def ascii_uppercase_def)

lemma n_trimmed_all_A: "n_trimmed (replicate n (CHR ''A'')) = replicate n (CHR ''A'')"
  by (simp add: n_trimmed_def lstrip_def rstrip_def upper_def to_upper_def
      ascii_lowercase_def ascii_uppercase_def)

lemma process_sequence_90_A:
  "process_sequence (replicate 90 (CHR ''A'')) None None = Some (replicate 90 (CHR ''A''))"
  by (simp add: process_sequence_def n_trimmed_all_A window_def truthy_def framed_def Let_def)

text \<open>
  Claim C5: the sequence filter rejects, or returns a sequence of at least 90 bases whose
  length is divisible by 3; an input whose length after N-trimming, slicing and frame
  truncation is below 90 is rejected; a sequence of 93 bases \<open>N\<close> is rejected whatever
  the coordinates.
\<close>

theorem process_sequence_length:
  "(process_sequence seq0 st sp = Some s \<longrightarrow> 90 \<le> length s \<and> length s mod 3 = 0)
   \<and> (length (framed (window (n_trimmed seq0) st sp)) < 90
        \<longrightarrow> process_sequence seq0 st sp = None)
   \<and> process_sequence (replicate 93 (CHR ''N'')) st sp = None"
proof (intro conjI impI)
  assume "process_sequence seq0 st sp = Some s"
  then have "s = framed (window (n_trimmed seq0) st sp)" "90 \<le> length s"
    by (auto simp: process_sequence_def Let_def split: if_splits)
  then show "90 \<le> length s" "length s mod 3 = 0"
    by (simp_all add: length_framed_mod_3)
next
  assume "length (framed (window (n_trimmed seq0) st sp)) < 90"
  then show "process_sequence seq0 st sp = None"
    by (simp add: process_sequence_def Let_def)
next
  show "process_sequence (replicate 93 (CHR ''N'')) st sp = None"
    by (simp add: process_sequence_def n_trimmed_all_N window_def py_slice_def framed_def
        Let_def)
qed

theorem process_sequence_length_witness:
  "process_sequence (replicate 90 (CHR ''A'')) None None = Some (replicate 90 (CHR ''A''))
   \<and> 90 \<le> length (replicate 90 (CHR ''A'')) \<and> length (replicate 90 (CHR ''A'')) mod 3 = 0
   \<and> length (framed (window (n_trimmed ''ATG'') None None)) < 90
   \<and> process_sequence ''ATG'' None None = None"
proof -
  have short: "length (framed (window (n_trimmed ''ATG'') None None)) < 90"
    by (simp add: n_trimmed_def lstrip_def rstrip_def upper_def to_upper_def
        ascii_lowercase_def ascii_uppercase_def window_def truthy_def framed_def Let_def)
  from process_sequence_length
         [of "replicate 90 (CHR ''A'')" None None "replicate 90 (CHR ''A'')"]
       process_sequence_length [of "''ATG''" None None] process_sequence_90_A short
  show ?thesis by simp
qed

lemma slice_bound_nonneg: "0 \<le> i \<Longrightarrow> slice_bound n i = min n (nat i)"
  by (auto simp: slice_bound_def)

text \<open>
  Claim C10: for non-negative coordinates the sequence filter has a result and raises
  nothing: the result is the frame-truncated window from base \<open>start\<close> to base \<open>stop\<close> of
  the N-trimmed sequence, rejected below 90 bases. A stop coordinate at or beyond the end
  acts as the end, and a coordinate 0 on either bound acts as an absent coordinate.
\<close>

theorem process_sequence_coordinates:
  assumes "0 \<le> i" and "0 \<le> j"
  shows "process_sequence seq0 (Some i) (Some j) =
           (let t = n_trimmed seq0;
                s = framed (drop (nat i - 1) (take (if j = 0 then length t else nat j) t))
            in if 90 \<le> length s then Some s else None)
         \<and> (int (length (n_trimmed seq0)) \<le> j \<longrightarrow>
              process_sequence seq0 st (Some j) = process_sequence seq0 st None)
         \<and> process_sequence seq0 (Some 0) sp = process_sequence seq0 None sp
         \<and> process_sequence seq0 st (Some 0) = process_sequence seq0 st None"
proof (intro conjI impI)
  show "process_sequence seq0 (Some i) (Some j) =
           (let t = n_trimmed seq0;
                s = framed (drop (nat i - 1) (take (if j = 0 then length t else nat j) t))
            in if 90 \<le> length s then Some s else None)"
    using assms
    by (auto simp: process_sequence_def window_def truthy_def py_slice_def
        slice_bound_nonneg Let_def nat_diff_distrib min_def)
next
  assume "int (length (n_trimmed seq0)) \<le> j"
  then have "window (n_trimmed seq0) st (Some j) = window (n_trimmed seq0) st None"
    by (auto simp: window_def truthy_def py_slice_def slice_bound_def split: option.splits)
  then show "process_sequence seq0 st (Some j) = process_sequence seq0 st None"
    by (simp add: process_sequence_def)
next
  show "process_sequence seq0 (Some 0) sp = process_sequence seq0 None sp"
    by (simp add: process_sequence_def window_def truthy_def Let_def)
next
  show "process_sequence seq0 st (Some 0) = process_sequence seq0 st None"
    by (simp add: process_sequence_def window_def truthy_def Let_def)
qed

theorem process_sequence_coordinates_witness:
  "(0::int) \<le> 1 \<and> (0::int) \<le> 200
   \<and> process_sequence (replicate 90 (CHR ''A'')) (Some 1) (Some 200)
       = Some (replicate 90 (CHR ''A''))
   \<and> int (length (n_trimmed (replicate 90 (CHR ''A'')))) \<le> 200
   \<and> process_sequence (replicate 90 (CHR ''A'')) None (Some 200)
       = process_sequence (replicate 90 (CHR ''A'')) None None"
proof -
  have h: "(0::int) \<le> 1" "(0::int) \<le> 200"
    by simp_all
  from process_sequence_coordinates [OF h, of "replicate 90 (CHR ''A'')" None]
  show ?thesis
    by (simp add: n_trimmed_all_A framed_def Let_def)
qed

section \<open>Task generation: properties\<close>

lemma set_unique [simp]: "set (unique xs) = set xs"
  by (induction xs) auto

lemma distinct_unique [simp]: "distinct (unique xs)"
  by (induction xs) auto

lemma set_combinations2_subset:
  "(a, b) \<in> set (combinations2 xs) \<Longrightarrow> a \<in> set xs \<and> b \<in> set xs"
  by (induction xs) auto

lemma distinct_combinations2: "distinct xs \<Longrightarrow> distinct (combinations2 xs)"
proof (induction xs)
  case Nil
  then show ?case by simp
next
  case (Cons x xs)
  have "distinct (map (Pair x) xs)"
    using Cons.prems by (simp add: distinct_map inj_on_def)
  moreover have "set (map (Pair x) xs) \<inter> set (combinations2 xs) = {}"
    using Cons.prems by (auto dest: set_combinations2_subset)
  ultimately show ?case
    using Cons by simp
qed

lemma combinations2_irrefl: "distinct xs \<Longrightarrow> (a, a) \<notin> set (combinations2 xs)"
  by (induction xs) (auto dest: set_combinations2_subset)

lemma combinations2_asym:
  "distinct xs \<Longrightarrow> (a, b) \<in> set (combinations2 xs) \<Longrightarrow> (b, a) \<notin> set (combinations2 xs)"
  by (induction xs) (auto dest: set_combinations2_subset)

lemma combinations2_total:
  "a \<in> set xs \<Longrightarrow> b \<in> set xs \<Longrightarrow> a \<noteq> b \<Longrightarrow>
     (a, b) \<in> set (combinations2 xs) \<or> (b, a) \<in> set (combinations2 xs)"
  by (induction xs) auto

lemma length_combinations2: "length (combinations2 xs) = length xs choose 2"
  by (induction xs) (simp_all add: numeral_2_eq_2)

lemma combinations2_map:
  "combinations2 (map f xs) = map (\<lambda>(x, y). (f x, f y)) (combinations2 xs)"
  by (induction xs) simp_all

lemma combinations2_nth:
  "combinations2 xs = map (\<lambda>(i, j). (xs ! i, xs ! j)) (combinations2 [0..<length xs])"
proof -
  have "combinations2 xs = combinations2 (map ((!) xs) [0..<length xs])"
    by (simp add: map_nth)
  then show ?thesis
    by (simp only: combinations2_map)
qed

lemma set_combinations2_snoc:
  "set (combinations2 (xs @ [x])) = set (combinations2 xs) \<union> (\<lambda>y. (y, x)) ` set xs"
  by (induction xs) auto

lemma set_combinations2_upt:
  "set (combinations2 [0..<n]) = {(i, j). i < j \<and> j < n}"
proof (induction n)
  case 0
  then show ?case by simp
next
  case (Suc n)
  have "set (combinations2 [0..<Suc n]) = {(i, j). i < j \<and> j < n} \<union> (\<lambda>i. (i, n)) ` {0..<n}"
    using Suc by (simp add: set_combinations2_snoc)
  also have "\<dots> = {(i, j). i < j \<and> j < Suc n}"
    by (auto simp: less_Suc_eq)
  finally show ?case .
qed

lemma product_map_map:
  "List.product (map f xs) (map g ys) = map (\<lambda>(x, y). (f x, g y)) (List.product xs ys)"
  by (induction xs) (simp_all add: comp_def)

lemma cross_positions:
  "concat (map (\<lambda>x. map (\<lambda>y. f (x, y)) ys) xs) =
     map (\<lambda>(i, j). f (xs ! i, ys ! j)) (List.product [0..<length xs] [0..<length ys])"
proof -
  have "concat (map (\<lambda>x. map (\<lambda>y. f (x, y)) ys) xs) = map f (List.product xs ys)"
    by (induction xs) simp_all
  also have "List.product xs ys =
      List.product (map ((!) xs) [0..<length xs]) (map ((!) ys) [0..<length ys])"
    by (simp add: map_nth)
  also have "\<dots> = map (\<lambda>(i, j). (xs ! i, ys ! j)) (List.product [0..<length xs] [0..<length ys])"
    by (rule product_map_map)
  finally show ?thesis
    by (simp add: case_prod_unfold comp_def)
qed


lemma task_label_mk_task [simp]: "task_label (mk_task a c1 c2 p) = (c1, c2)"
  by (simp add: task_label_def mk_task_def)

lemma filter_cross_tasks:
  "filter (\<lambda>t. task_label t = k) (cross_tasks a df cc) = (if cc = k then cross_tasks a df cc else [])"
  by (cases cc) (auto simp: cross_tasks_def filter_concat filter_map comp_def)

lemma filter_within_tasks:
  "filter (\<lambda>t. task_label t = k) (within_tasks a df c) =
     (if (c, c) = k then within_tasks a df c else [])"
  by (auto simp: within_tasks_def filter_map comp_def)

lemma concat_map_if_distinct:
  "distinct ps \<Longrightarrow>
     concat (map (\<lambda>p. if g p = q then f p else []) ps) =
       concat (map f (filter (\<lambda>p. g p = q) ps))"
  by (induction ps) auto

lemma filter_eq_distinct:
  "distinct ps \<Longrightarrow> filter (\<lambda>p. p = q) ps = (if q \<in> set ps then [q] else [])"
  by (induction ps) auto

lemma filter_make_tasks:
  "filter (\<lambda>t. task_label t = k) (make_tasks a df) =
     (if k \<in> set (combinations2 (countries_of df)) then cross_tasks a df k else [])
     @ (if fst k = snd k \<and> fst k \<in> set (countries_of df) then within_tasks a df (fst k) else [])"
proof -
  have d: "distinct (countries_of df)"
    by (simp add: countries_of_def)
  have 1: "filter (\<lambda>t. task_label t = k)
             (concat (map (cross_tasks a df) (combinations2 (countries_of df)))) =
           (if k \<in> set (combinations2 (countries_of df)) then cross_tasks a df k else [])"
    using distinct_combinations2 [OF d]
    by (simp add: filter_concat comp_def filter_cross_tasks concat_map_if_distinct [where g = "\<lambda>p. p"]
        filter_eq_distinct)
  have 2: "filter (\<lambda>t. task_label t = k)
             (concat (map (within_tasks a df) (countries_of df))) =
           (if fst k = snd k \<and> fst k \<in> set (countries_of df) then within_tasks a df (fst k) else [])"
  proof -
    obtain x y where k: "k = (x, y)" by (cases k)
    have "filter (\<lambda>c. (c, c) = k) (countries_of df) =
            (if x = y \<and> x \<in> set (countries_of df) then [x] else [])"
    proof (cases "x = y")
      case True
      then have "(\<lambda>c. (c, c) = k) = (\<lambda>c. c = x)"
        by (auto simp: k)
      then show ?thesis
        using filter_eq_distinct [OF d, of x] True by simp
    next
      case False
      then have "(\<lambda>c. (c, c) = k) = (\<lambda>c. False)"
        by (auto simp: k)
      then show ?thesis
        using False by simp
    qed
    moreover have "filter (\<lambda>t. task_label t = k)
             (concat (map (within_tasks a df) (countries_of df))) =
           concat (map (within_tasks a df) (filter (\<lambda>c. (c, c) = k) (countries_of df)))"
      using d
      by (simp add: filter_concat comp_def filter_within_tasks
          concat_map_if_distinct [where g = "\<lambda>c. (c, c)"])
    ultimately have "filter (\<lambda>t. task_label t = k)
             (concat (map (within_tasks a df) (countries_of df))) =
           concat (map (within_tasks a df) (if x = y \<and> x \<in> set (countries_of df) then [x] else []))"
      by (simp only:)
    then show ?thesis
      by (cases "x = y \<and> x \<in> set (countries_of df)") (auto simp: k)
  qed
  show ?thesis
    by (simp add: make_tasks_def Let_def 1 2)
qed

lemma filter_unique: "filter P (unique xs) = unique (filter P xs)"
proof (induction xs)
  case Nil
  then show ?case by simp
next
  case (Cons a xs)
  have comm: "filter P (filter (\<lambda>y. y \<noteq> a) (unique xs)) =
                filter (\<lambda>y. y \<noteq> a) (unique (filter P xs))"
  proof -
    have "filter P (filter (\<lambda>y. y \<noteq> a) (unique xs)) =
            filter (\<lambda>y. y \<noteq> a) (filter P (unique xs))"
      unfolding filter_filter by (rule filter_cong) auto
    then show ?thesis
      by (simp only: Cons.IH)
  qed
  show ?case
  proof (cases "P a")
    case True
    then show ?thesis by (simp add: comm del: filter_filter)
  next
    case False
    then have "filter (\<lambda>y. y \<noteq> a) (unique (filter P xs)) = unique (filter P xs)"
      by (auto simp: filter_id_conv)
    with False show ?thesis by (simp add: comm del: filter_filter)
  qed
qed

lemma countries_of_filter_known:
  "countries_of (filter (\<lambda>r. country r \<noteq> ''Unknown'') df) = countries_of df"
proof -
  have "map country (filter (\<lambda>r. country r \<noteq> ''Unknown'') df) =
          filter (\<lambda>c. c \<noteq> ''Unknown'') (map country df)"
    by (simp add: filter_map comp_def)
  then show ?thesis
    by (simp add: countries_of_def filter_unique [symmetric])
qed

lemma seqs_of_filter_known:
  "c \<noteq> ''Unknown'' \<Longrightarrow> seqs_of (filter (\<lambda>r. country r \<noteq> ''Unknown'') df) c = seqs_of df c"
  by (auto simp: seqs_of_def intro!: arg_cong [where f = "map seq"] filter_cong)

lemma unknown_notin_countries_of: "''Unknown'' \<notin> set (countries_of df)"
  by (simp add: countries_of_def)

lemma make_tasks_filter_known:
  "make_tasks a (filter (\<lambda>r. country r \<noteq> ''Unknown'') df) = make_tasks a df"
proof -
  let ?df = "filter (\<lambda>r. country r \<noteq> ''Unknown'') df"
  have c: "cross_tasks a ?df cc = cross_tasks a df cc" if "cc \<in> set (combinations2 (countries_of df))" for cc
  proof -
    obtain c1 c2 where cc: "cc = (c1, c2)" by (cases cc)
    with that have "c1 \<in> set (countries_of df)" "c2 \<in> set (countries_of df)"
      by (auto dest: set_combinations2_subset)
    then have "c1 \<noteq> ''Unknown''" "c2 \<noteq> ''Unknown''"
      using unknown_notin_countries_of by blast+
    then show ?thesis
      by (simp add: cc cross_tasks_def seqs_of_filter_known)
  qed
  have w: "within_tasks a ?df c = within_tasks a df c" if "c \<in> set (countries_of df)" for c
  proof -
    from that have "c \<noteq> ''Unknown''"
      using unknown_notin_countries_of by blast
    then show ?thesis
      by (simp add: within_tasks_def seqs_of_filter_known)
  qed
  show ?thesis
    by (simp add: make_tasks_def Let_def countries_of_filter_known c w cong: map_cong)
qed

lemma length_make_tasks:
  "length (make_tasks a df) =
     (\<Sum>(c1, c2) \<leftarrow> combinations2 (countries_of df).
         length (seqs_of df c1) * length (seqs_of df c2))
     + (\<Sum>c \<leftarrow> countries_of df. length (seqs_of df c) choose 2)"
  by (simp add: make_tasks_def Let_def length_concat comp_def cross_tasks_def within_tasks_def
      length_combinations2 case_prod_unfold sum_list_triv)

lemma set_countries_of: "set (countries_of df) = country ` set df - {''Unknown''}"
  by (auto simp: countries_of_def)

lemma distinct_countries_of: "distinct (countries_of df)"
  by (simp add: countries_of_def)

lemma make_tasks_labels:
  "t \<in> set (make_tasks a df) \<Longrightarrow>
     fst (task_label t) \<in> set (countries_of df) \<and> snd (task_label t) \<in> set (countries_of df)"
  by (auto simp: make_tasks_def Let_def cross_tasks_def within_tasks_def
      dest: set_combinations2_subset)

lemma cross_tasks_positions:
  "cross_tasks a df (c1, c2) =
     map (\<lambda>(i, j). mk_task a c1 c2 (seqs_of df c1 ! i, seqs_of df c2 ! j))
       (List.product [0..<length (seqs_of df c1)] [0..<length (seqs_of df c2)])"
  unfolding cross_tasks_def prod.case by (rule cross_positions)

lemma within_tasks_positions:
  "within_tasks a df c =
     map (\<lambda>(i, j). mk_task a c c (seqs_of df c ! i, seqs_of df c ! j))
       (combinations2 [0..<length (seqs_of df c)])"
  unfolding within_tasks_def
  by (subst combinations2_nth) (simp add: case_prod_unfold comp_def)

lemma filter_make_tasks_cross:
  assumes "c1 \<in> set (countries_of df)" "c2 \<in> set (countries_of df)" "c1 \<noteq> c2"
  shows "(filter (\<lambda>t. task_label t = (c1, c2)) (make_tasks a df) = cross_tasks a df (c1, c2)
            \<and> filter (\<lambda>t. task_label t = (c2, c1)) (make_tasks a df) = [])
         \<or> (filter (\<lambda>t. task_label t = (c2, c1)) (make_tasks a df) = cross_tasks a df (c2, c1)
            \<and> filter (\<lambda>t. task_label t = (c1, c2)) (make_tasks a df) = [])"
proof -
  let ?cc = "combinations2 (countries_of df)"
  consider "(c1, c2) \<in> set ?cc" "(c2, c1) \<notin> set ?cc" | "(c2, c1) \<in> set ?cc" "(c1, c2) \<notin> set ?cc"
    using combinations2_total [OF assms] combinations2_asym [OF distinct_countries_of]
    by blast
  then show ?thesis
    using assms(3) by cases (simp_all add: filter_make_tasks)
qed

lemma filter_make_tasks_within:
  assumes "c \<in> set (countries_of df)"
  shows "filter (\<lambda>t. task_label t = (c, c)) (make_tasks a df) = within_tasks a df c"
  using assms combinations2_irrefl [OF distinct_countries_of, of c df]
  by (simp add: filter_make_tasks)

lemma length_seqs_of:
  "length (seqs_of df c) = length (filter (\<lambda>x. x = c) (map country df))"
  by (simp add: seqs_of_def filter_map comp_def)

lemma length_cross_tasks:
  "length (cross_tasks a df (c1, c2)) = length (seqs_of df c1) * length (seqs_of df c2)"
  by (simp add: cross_tasks_positions)

lemma length_within_tasks:
  "length (within_tasks a df c) = length (seqs_of df c) choose 2"
  by (simp add: within_tasks_def length_combinations2)

lemma example_counts:
  assumes "map country df = [''A'', ''A'', ''B'', ''B'', ''B'', ''C'']"
  shows "length (make_tasks a df) = 15"
    and "length (filter (\<lambda>t. task_label t = (''A'', ''B'')) (make_tasks a df)) = 6"
    and "length (filter (\<lambda>t. task_label t = (''A'', ''C'')) (make_tasks a df)) = 2"
    and "length (filter (\<lambda>t. task_label t = (''B'', ''C'')) (make_tasks a df)) = 3"
    and "length (filter (\<lambda>t. task_label t = (''A'', ''A'')) (make_tasks a df)) = 1"
    and "length (filter (\<lambda>t. task_label t = (''B'', ''B'')) (make_tasks a df)) = 3"
    and "length (filter (\<lambda>t. task_label t = (''C'', ''C'')) (make_tasks a df)) = 0"
proof -
  have cs: "countries_of df = [''A'', ''B'', ''C'']"
    by (simp add: countries_of_def assms)
  have n: "length (seqs_of df ''A'') = 2" "length (seqs_of df ''B'') = 3"
    "length (seqs_of df ''C'') = 1"
    by (simp_all add: length_seqs_of assms)
  show "length (make_tasks a df) = 15"
    by (simp add: length_make_tasks cs n choose_two)
  show "length (filter (\<lambda>t. task_label t = (''A'', ''B'')) (make_tasks a df)) = 6"
    by (simp add: filter_make_tasks cs length_cross_tasks n)
  show "length (filter (\<lambda>t. task_label t = (''A'', ''C'')) (make_tasks a df)) = 2"
    by (simp add: filter_make_tasks cs length_cross_tasks n)
  show "length (filter (\<lambda>t. task_label t = (''B'', ''C'')) (make_tasks a df)) = 3"
    by (simp add: filter_make_tasks cs length_cross_tasks n)
  show "length (filter (\<lambda>t. task_label t = (''A'', ''A'')) (make_tasks a df)) = 1"
    by (simp add: filter_make_tasks cs length_within_tasks n)
  show "length (filter (\<lambda>t. task_label t = (''B'', ''B'')) (make_tasks a df)) = 3"
    by (simp add: filter_make_tasks cs length_within_tasks n choose_two)
  show "length (filter (\<lambda>t. task_label t = (''C'', ''C'')) (make_tasks a df)) = 0"
    by (simp add: filter_make_tasks cs length_within_tasks n)
qed

text \<open>
  Claim C1: the countries of the task list are the distinct countries of the records other
  than \<open>Unknown\<close>, and every task is labelled with two of them. For two distinct countries,
  the tasks labelled with the pair in one of the two orders are the tasks of all pairs of
  positions (one sequence of each country), each once, and no task carries the other order.
  For one country, the tasks labelled with it twice are the tasks of the pairs of positions
  \<open>i < j\<close> of its sequences, each once. Records of country \<open>Unknown\<close> change nothing.
  Countries with 2, 3 and 1 sequences give 6, 2 and 3 cross tasks and 1, 3 and 0 within
  tasks, 15 in all.
\<close>

theorem make_tasks_pairs:
  "distinct (countries_of df) \<and> set (countries_of df) = country ` set df - {''Unknown''}
   \<and> (\<forall>t \<in> set (make_tasks a df).
         fst (task_label t) \<in> set (countries_of df) \<and> snd (task_label t) \<in> set (countries_of df))
   \<and> (c1 \<in> set (countries_of df) \<and> c2 \<in> set (countries_of df) \<and> c1 \<noteq> c2 \<longrightarrow>
         (filter (\<lambda>t. task_label t = (c1, c2)) (make_tasks a df) =
            map (\<lambda>(i, j). mk_task a c1 c2 (seqs_of df c1 ! i, seqs_of df c2 ! j))
              (List.product [0..<length (seqs_of df c1)] [0..<length (seqs_of df c2)])
          \<and> filter (\<lambda>t. task_label t = (c2, c1)) (make_tasks a df) = [])
       \<or> (filter (\<lambda>t. task_label t = (c2, c1)) (make_tasks a df) =
            map (\<lambda>(j, i). mk_task a c2 c1 (seqs_of df c2 ! j, seqs_of df c1 ! i))
              (List.product [0..<length (seqs_of df c2)] [0..<length (seqs_of df c1)])
          \<and> filter (\<lambda>t. task_label t = (c1, c2)) (make_tasks a df) = []))
   \<and> (c \<in> set (countries_of df) \<longrightarrow>
         filter (\<lambda>t. task_label t = (c, c)) (make_tasks a df) =
           map (\<lambda>(i, j). mk_task a c c (seqs_of df c ! i, seqs_of df c ! j))
             (combinations2 [0..<length (seqs_of df c)]))
   \<and> distinct (combinations2 [0..<n]) \<and> set (combinations2 [0..<n]) = {(i, j). i < j \<and> j < n}
   \<and> make_tasks a (filter (\<lambda>r. country r \<noteq> ''Unknown'') df) = make_tasks a df
   \<and> length (make_tasks a df) =
        (\<Sum>(c1, c2) \<leftarrow> combinations2 (countries_of df).
            length (seqs_of df c1) * length (seqs_of df c2))
        + (\<Sum>c \<leftarrow> countries_of df. length (seqs_of df c) choose 2)
   \<and> (map country df = [''A'', ''A'', ''B'', ''B'', ''B'', ''C''] \<longrightarrow>
         length (make_tasks a df) = 15
         \<and> length (filter (\<lambda>t. task_label t = (''A'', ''B'')) (make_tasks a df)) = 6
         \<and> length (filter (\<lambda>t. task_label t = (''A'', ''C'')) (make_tasks a df)) = 2
         \<and> length (filter (\<lambda>t. task_label t = (''B'', ''C'')) (make_tasks a df)) = 3
         \<and> length (filter (\<lambda>t. task_label t = (''A'', ''A'')) (make_tasks a df)) = 1
         \<and> length (filter (\<lambda>t. task_label t = (''B'', ''B'')) (make_tasks a df)) = 3
         \<and> length (filter (\<lambda>t. task_label t = (''C'', ''C'')) (make_tasks a df)) = 0)"
proof (intro conjI ballI impI)
  show "distinct (countries_of df)"
    by (rule distinct_countries_of)
  show "set (countries_of df) = country ` set df - {''Unknown''}"
    by (rule set_countries_of)
  show "distinct (combinations2 [0..<n])"
    by (simp add: distinct_combinations2)
  show "set (combinations2 [0..<n]) = {(i, j). i < j \<and> j < n}"
    by (rule set_combinations2_upt)
  show "make_tasks a (filter (\<lambda>r. country r \<noteq> ''Unknown'') df) = make_tasks a df"
    by (rule make_tasks_filter_known)
  show "length (make_tasks a df) =
        (\<Sum>(c1, c2) \<leftarrow> combinations2 (countries_of df).
            length (seqs_of df c1) * length (seqs_of df c2))
        + (\<Sum>c \<leftarrow> countries_of df. length (seqs_of df c) choose 2)"
    by (rule length_make_tasks)
next
  fix t assume "t \<in> set (make_tasks a df)"
  then show "fst (task_label t) \<in> set (countries_of df)"
    and "snd (task_label t) \<in> set (countries_of df)"
    by (simp_all add: make_tasks_labels)
next
  assume "c1 \<in> set (countries_of df) \<and> c2 \<in> set (countries_of df) \<and> c1 \<noteq> c2"
  then have "c1 \<in> set (countries_of df)" "c2 \<in> set (countries_of df)" "c1 \<noteq> c2"
    by simp_all
  from filter_make_tasks_cross [OF this, of a]
  show "(filter (\<lambda>t. task_label t = (c1, c2)) (make_tasks a df) =
            map (\<lambda>(i, j). mk_task a c1 c2 (seqs_of df c1 ! i, seqs_of df c2 ! j))
              (List.product [0..<length (seqs_of df c1)] [0..<length (seqs_of df c2)])
          \<and> filter (\<lambda>t. task_label t = (c2, c1)) (make_tasks a df) = [])
       \<or> (filter (\<lambda>t. task_label t = (c2, c1)) (make_tasks a df) =
            map (\<lambda>(j, i). mk_task a c2 c1 (seqs_of df c2 ! j, seqs_of df c1 ! i))
              (List.product [0..<length (seqs_of df c2)] [0..<length (seqs_of df c1)])
          \<and> filter (\<lambda>t. task_label t = (c1, c2)) (make_tasks a df) = [])"
    by (simp only: cross_tasks_positions)
next
  assume "c \<in> set (countries_of df)"
  then show "filter (\<lambda>t. task_label t = (c, c)) (make_tasks a df) =
           map (\<lambda>(i, j). mk_task a c c (seqs_of df c ! i, seqs_of df c ! j))
             (combinations2 [0..<length (seqs_of df c)])"
    by (simp only: filter_make_tasks_within within_tasks_positions)
next
  assume ex: "map country df = [''A'', ''A'', ''B'', ''B'', ''B'', ''C'']"
  show "length (make_tasks a df) = 15"
    and "length (filter (\<lambda>t. task_label t = (''A'', ''B'')) (make_tasks a df)) = 6"
    and "length (filter (\<lambda>t. task_label t = (''A'', ''C'')) (make_tasks a df)) = 2"
    and "length (filter (\<lambda>t. task_label t = (''B'', ''C'')) (make_tasks a df)) = 3"
    and "length (filter (\<lambda>t. task_label t = (''A'', ''A'')) (make_tasks a df)) = 1"
    and "length (filter (\<lambda>t. task_label t = (''B'', ''B'')) (make_tasks a df)) = 3"
    and "length (filter (\<lambda>t. task_label t = (''C'', ''C'')) (make_tasks a df)) = 0"
    by (rule example_counts [OF ex])+
qed

lemma sample_df_countries: "map country sample_df = [''A'', ''A'', ''B'', ''B'', ''B'', ''C'']"
  by (simp add: sample_df_def sample_record_def)

lemma countries_of_sample_df: "countries_of sample_df = [''A'', ''B'', ''C'']"
  by (simp add: countries_of_def sample_df_countries)

lemma seqs_of_sample_df:
  "seqs_of sample_df ''A'' = [replicate 90 (CHR ''A''), replicate 90 (CHR ''C'')]"
  "seqs_of sample_df ''B'' =
     [replicate 90 (CHR ''G''), replicate 90 (CHR ''T''), replicate 90 (CHR ''R'')]"
  "seqs_of sample_df ''C'' = [replicate 90 (CHR ''Y'')]"
  by (simp_all add: seqs_of_def sample_df_def sample_record_def)

lemma sample_task_in_make_tasks:
  "mk_task sample_args ''A'' ''B'' (replicate 90 (CHR ''A''), replicate 90 (CHR ''G''))
     \<in> set (make_tasks sample_args sample_df)"
  by (simp add: make_tasks_def Let_def countries_of_sample_df cross_tasks_def
      seqs_of_sample_df)

theorem make_tasks_pairs_witness:
  "''A'' \<in> set (countries_of sample_df) \<and> ''B'' \<in> set (countries_of sample_df) \<and> ''A'' \<noteq> ''B''
   \<and> map country sample_df = [''A'', ''A'', ''B'', ''B'', ''B'', ''C'']
   \<and> mk_task sample_args ''A'' ''B'' (replicate 90 (CHR ''A''), replicate 90 (CHR ''G''))
        \<in> set (make_tasks sample_args sample_df)
   \<and> length (make_tasks sample_args sample_df) = 15
   \<and> length (filter (\<lambda>t. task_label t = (''A'', ''B'')) (make_tasks sample_args sample_df)) = 6
   \<and> length (filter (\<lambda>t. task_label t = (''B'', ''B'')) (make_tasks sample_args sample_df)) = 3
   \<and> filter (\<lambda>t. task_label t = (''B'', ''B'')) (make_tasks sample_args sample_df) =
        map (\<lambda>(i, j). mk_task sample_args ''B'' ''B''
                        (seqs_of sample_df ''B'' ! i, seqs_of sample_df ''B'' ! j))
          (combinations2 [0..<length (seqs_of sample_df ''B'')])"
proof -
  have m: "''A'' \<in> set (countries_of sample_df)" "''B'' \<in> set (countries_of sample_df)"
    "''A'' \<noteq> ''B''"
    by (simp_all add: countries_of_sample_df)
  from make_tasks_pairs [of sample_df sample_args "''A''" "''B''" "''B''" 0]
    m sample_df_countries sample_task_in_make_tasks
  show ?thesis
    by blast
qed

section \<open>Floating-point numbers: properties\<close>

lemma bit_length_0 [simp]: "bit_length 0 = 0"
  by (simp add: bit_length.simps)

lemma bit_length_1 [simp]: "bit_length (Suc 0) = 1"
  by (simp add: bit_length.simps [of "Suc 0"])

lemma bit_length_Bit0 [simp]:
  "bit_length (numeral (Num.Bit0 n)) = Suc (bit_length (numeral n))"
  by (subst bit_length.simps) simp

lemma bit_length_Bit1 [simp]:
  "bit_length (numeral (Num.Bit1 n)) = Suc (bit_length (numeral n))"
  by (subst bit_length.simps) simp

lemma bit_length_lower: "0 < n \<Longrightarrow> 2 ^ (bit_length n - 1) \<le> n"
proof (induction n rule: bit_length.induct)
  case (1 n)
  show ?case
  proof (cases "n div 2 = 0")
    case True
    with "1.prems" have "n = 1" by presburger
    then show ?thesis
      by simp
  next
    case False
    then have pos: "0 < n div 2" by simp
    from "1.prems" have "n \<noteq> 0" by simp
    from "1.IH" [OF this pos] have IH: "2 ^ (bit_length (n div 2) - 1) \<le> n div 2" .
    have bl: "bit_length n = Suc (bit_length (n div 2))"
      using \<open>n \<noteq> 0\<close> by (subst bit_length.simps) simp
    have "0 < bit_length (n div 2)"
      using pos by (subst bit_length.simps) simp
    then have "2 ^ (bit_length n - 1) = 2 * 2 ^ (bit_length (n div 2) - 1)"
      by (simp add: bl flip: power_Suc)
    also have "\<dots> \<le> 2 * (n div 2)"
      using IH by simp
    also have "\<dots> \<le> n" by simp
    finally show ?thesis .
  qed
qed

lemma round_half_even_ge_1: "1 \<le> x \<Longrightarrow> 1 \<le> round_half_even x"
proof -
  assume "1 \<le> x"
  then have "1 \<le> \<lfloor>x\<rfloor>" by simp
  then show ?thesis
    by (simp add: round_half_even_def Let_def)
qed

lemma pow2_pos: "0 < pow2 e"
  by (simp add: pow2_def)

lemma float_of_nat_nonzero:
  assumes "0 < n"
  shows "\<not> is_zero (float_of_nat n)"
proof -
  let ?a = "real n"
  let ?e = "max (floor_log2 ?a) (- 1022)"
  let ?ulp = "pow2 (?e - 52)"
  let ?r = "real_of_int (round_half_even (?a / ?ulp)) * ?ulp"
  have a1: "1 \<le> ?a" using assms by simp
  have fl: "floor_log2 ?a = int (bit_length n) - 1"
    using a1 by (simp add: floor_log2_def)
  have blpos: "0 < bit_length n"
    using assms by (subst bit_length.simps) simp
  then have e: "?e = int (bit_length n) - 1"
    by (simp add: fl)
  have "?ulp \<le> 2 ^ (bit_length n - 1)"
  proof (cases "int (bit_length n) - 1 - 52 \<ge> 0")
    case True
    then have "?ulp = 2 ^ nat (int (bit_length n) - 1 - 52)"
      by (simp add: e pow2_def)
    also have "\<dots> \<le> 2 ^ (bit_length n - 1)"
      by (rule power_increasing) (use True in auto)
    finally show ?thesis .
  next
    case False
    then have "?ulp = 1 / 2 ^ nat (- (int (bit_length n) - 1 - 52))"
      by (simp add: e pow2_def)
    also have "\<dots> \<le> 1"
      by simp
    also have "\<dots> \<le> 2 ^ (bit_length n - 1)"
      by simp
    finally show ?thesis .
  qed
  also have "(2::real) ^ (bit_length n - 1) \<le> ?a"
    using bit_length_lower [OF assms] by (metis of_nat_le_iff of_nat_numeral of_nat_power)
  finally have "?ulp \<le> ?a" .
  then have "1 \<le> ?a / ?ulp"
    using pow2_pos [of "?e - 52"] by (simp add: le_divide_eq)
  then have "1 \<le> round_half_even (?a / ?ulp)"
    by (rule round_half_even_ge_1)
  then have rh: "round_half_even (?a / ?ulp) \<noteq> 0"
    by simp
  have up: "?ulp \<noteq> 0"
    using pow2_pos [of "?e - 52"] by simp
  have n0: "?a \<noteq> 0" "?a > 0" using assms by simp_all
  show ?thesis
    unfolding float_of_nat_def round_binary64_def is_zero_def Let_def
    using rh up n0 by simp
qed

section \<open>Aggregation: properties\<close>

lemma float_div_float_of_nat:
  "0 < n \<Longrightarrow> \<exists>m. float_div x (float_of_nat n) = Inr m"
  by (simp add: float_div_def float_of_nat_nonzero)

lemma base_row_ok:
  assumes "vals \<noteq> []"
  shows "\<exists>m_ka m_ks ratio.
           float_div (py_sum (map fst vals)) (float_of_nat (length vals)) = Inr m_ka
         \<and> float_div (py_sum (map snd vals)) (float_of_nat (length vals)) = Inr m_ks
         \<and> (is_zero m_ks \<longrightarrow> ratio = PosInf)
         \<and> (\<not> is_zero m_ks \<longrightarrow> float_div m_ka m_ks = Inr ratio)
         \<and> base_row cat a ((gA, gB), vals) =
             Inr \<lparr>Group_A = gA, Group_B = gB,
                  Continent_A = country_to_continent cat gA,
                  Continent_B = country_to_continent cat gB,
                  mean_Ka = m_ka, mean_Ks = m_ks, Ka_Ks = ratio,
                  pairs = int (length vals),
                  gene = args_gene a, start = args_start a, stop = args_stop a\<rparr>"
proof -
  from assms have n: "0 < length vals" by simp
  obtain m_ka where ka: "float_div (py_sum (map fst vals)) (float_of_nat (length vals)) = Inr m_ka"
    using float_div_float_of_nat [OF n] by blast
  obtain m_ks where ks: "float_div (py_sum (map snd vals)) (float_of_nat (length vals)) = Inr m_ks"
    using float_div_float_of_nat [OF n] by blast
  show ?thesis
  proof (cases "is_zero m_ks")
    case True
    then show ?thesis
      by (simp add: base_row_def ka ks)
  next
    case False
    then obtain ratio where r: "float_div m_ka m_ks = Inr ratio"
      by (simp add: float_div_def)
    with False show ?thesis
      by (simp add: base_row_def ka ks)
  qed
qed

lemma successes_append [simp]: "successes (xs @ ys) = successes xs @ successes ys"
  by (simp add: successes_def)

lemma successes_Nil [simp]: "successes [] = []"
  by (simp add: successes_def)

lemma successes_single [simp]:
  "successes [None] = []" "successes [Some r] = [r]"
  by (simp_all add: successes_def)

lemma unique_snoc:
  "unique (xs @ [x]) = (if x \<in> set xs then unique xs else unique xs @ [x])"
  by (induction xs) auto

lemma setdefault_append_map:
  "distinct ks \<Longrightarrow>
     setdefault_append (map (\<lambda>k. (k, f k)) ks) k v =
       (if k \<in> set ks then map (\<lambda>k'. (k', if k' = k then f k' @ [v] else f k')) ks
        else map (\<lambda>k. (k, f k)) ks @ [(k, [v])])"
  by (induction ks) auto

lemma build_agg_snoc: "build_agg (rs @ [r]) = agg_step (build_agg rs) r"
  by (simp add: build_agg_def)

lemma group_vals_notin:
  "k \<notin> set (agg_keys rs) \<Longrightarrow> group_vals k rs = []"
  by (auto simp: agg_keys_def group_vals_def filter_empty_conv)

lemma build_agg_groups:
  "build_agg results = map (\<lambda>k. (k, group_vals k results)) (agg_keys results)"
proof (induction results rule: rev_induct)
  case Nil
  then show ?case by (simp add: build_agg_def agg_keys_def)
next
  case (snoc r rs)
  show ?case
  proof (cases r)
    case None
    then show ?thesis
      using snoc by (simp add: build_agg_snoc agg_step_def agg_keys_def group_vals_def)
  next
    case (Some res)
    obtain gA gB ka ks where res: "res = (gA, gB, ka, ks)" by (cases res)
    have keys: "agg_keys (rs @ [r]) =
        (if (gA, gB) \<in> set (agg_keys rs) then agg_keys rs else agg_keys rs @ [(gA, gB)])"
      by (simp add: agg_keys_def Some res unique_snoc result_label_def)
    have vals: "group_vals k (rs @ [r]) =
        (if k = (gA, gB) then group_vals k rs @ [(ka, ks)] else group_vals k rs)" for k
      by (auto simp: group_vals_def Some res result_label_def result_vals_def)
    have d: "distinct (agg_keys rs)"
      by (simp add: agg_keys_def)
    have "build_agg (rs @ [r]) =
        setdefault_append (map (\<lambda>k. (k, group_vals k rs)) (agg_keys rs)) (gA, gB) (ka, ks)"
      by (simp add: build_agg_snoc agg_step_def Some res snoc)
    also have "\<dots> = map (\<lambda>k. (k, group_vals k (rs @ [r]))) (agg_keys (rs @ [r]))"
      by (auto simp: setdefault_append_map [OF d] keys vals group_vals_notin)
    finally show ?thesis .
  qed
qed

lemma build_agg_successes: "build_agg results = build_agg (map Some (successes results))"
proof -
  have "successes (map Some xs) = xs" for xs :: "pair_result list"
    by (induction xs) (simp_all add: successes_def)
  then show ?thesis
    by (simp add: build_agg_groups agg_keys_def group_vals_def)
qed

lemma group_vals_nonempty_iff:
  "group_vals k results \<noteq> [] \<longleftrightarrow> k \<in> set (agg_keys results)"
  by (auto simp: agg_keys_def group_vals_def filter_empty_conv)

lemma build_agg_vals_nonempty:
  "(k, vals) \<in> set (build_agg results) \<Longrightarrow> vals \<noteq> []"
  using group_vals_nonempty_iff [of k results] by (auto simp: build_agg_groups)

lemma base_row_labels:
  "base_row cat a ((gA, gB), vals) = Inr b \<Longrightarrow>
     Group_A b = gA \<and> Group_B b = gB
     \<and> Continent_A b = country_to_continent cat gA
     \<and> Continent_B b = country_to_continent cat gB
     \<and> pairs b = int (length vals)
     \<and> gene b = args_gene a \<and> start b = args_start a \<and> stop b = args_stop a"
  by (auto simp: base_row_def split: sum.splits if_splits)

lemma emit_rows_base:
  "base_row cat a g = Inr b \<Longrightarrow> emit_rows cat a g = Inr (rows_of_base b)"
  using base_row_labels [of cat a "fst (fst g)" "snd (fst g)" "snd g" b]
  by (simp add: emit_rows_def rows_of_base_def)

lemma make_rows_bases:
  "map (base_row cat a) ag = map Inr bases \<Longrightarrow>
     make_rows cat a ag = Inr (concat (map rows_of_base bases))"
proof (induction ag arbitrary: bases)
  case Nil
  then show ?case by simp
next
  case (Cons g gs)
  then obtain b bs where bases: "bases = b # bs" "base_row cat a g = Inr b"
    "map (base_row cat a) gs = map Inr bs"
    by (cases bases) auto
  then show ?case
    using Cons.IH [of bs] by (simp add: emit_rows_base)
qed

lemma bases_exist:
  "\<forall>g \<in> set ag. snd g \<noteq> [] \<Longrightarrow> \<exists>bases. map (base_row cat a) ag = map Inr bases"
proof (induction ag)
  case Nil
  then show ?case by simp
next
  case (Cons g gs)
  then obtain bs where bs: "map (base_row cat a) gs = map Inr bs"
    by auto
  obtain gA gB vals where g: "g = ((gA, gB), vals)"
    by (cases g) auto
  with Cons.prems have "vals \<noteq> []" by simp
  from base_row_ok [OF this, of cat a gA gB] obtain b where "base_row cat a g = Inr b"
    unfolding g by blast
  with bs have "map (base_row cat a) (g # gs) = map Inr (b # bs)"
    by simp
  then show ?case by blast
qed

lemma aggregate_bases:
  "\<exists>bases. map (base_row cat a) (build_agg results) = map Inr bases
         \<and> aggregate cat a results = Inr (concat (map rows_of_base bases))"
proof -
  have "\<forall>g \<in> set (build_agg results). snd g \<noteq> []"
    using build_agg_vals_nonempty by auto
  from bases_exist [OF this] obtain bases
    where "map (base_row cat a) (build_agg results) = map Inr bases" by blast
  then show ?thesis
    using make_rows_bases [of cat a "build_agg results" bases]
    by (auto simp: aggregate_def)
qed

lemma mirror_row_fields:
  "mirror_row b =
     \<lparr>Group_A = Group_B b, Group_B = Group_A b,
      Continent_A = Continent_B b, Continent_B = Continent_A b,
      mean_Ka = mean_Ka b, mean_Ks = mean_Ks b, Ka_Ks = Ka_Ks b, pairs = pairs b,
      gene = gene b, start = start b, stop = stop b\<rparr>"
  by (cases b) (simp add: mirror_row_def)

lemma mirror_row_mirror_row [simp]: "mirror_row (mirror_row b) = b"
  by (cases b) (simp add: mirror_row_def)

lemma mirror_in_rows_of_base:
  assumes "Group_A b = Group_B b \<longrightarrow> Continent_A b = Continent_B b"
  shows "r \<in> set (rows_of_base b) \<Longrightarrow> mirror_row r \<in> set (rows_of_base b)"
  using assms
  by (cases b) (auto simp: rows_of_base_def mirror_row_def split: if_splits)

lemma group_row_in_aggregate:
  assumes "group_vals (gA, gB) results \<noteq> []"
  shows "\<exists>rows r. aggregate cat a results = Inr rows \<and> r \<in> set rows
           \<and> Group_A r = gA \<and> Group_B r = gB
           \<and> float_div (py_sum (map fst (group_vals (gA, gB) results)))
                 (float_of_nat (length (group_vals (gA, gB) results))) = Inr (mean_Ka r)
           \<and> float_div (py_sum (map snd (group_vals (gA, gB) results)))
                 (float_of_nat (length (group_vals (gA, gB) results))) = Inr (mean_Ks r)
           \<and> pairs r = int (length (group_vals (gA, gB) results))
           \<and> (is_zero (mean_Ks r) \<longrightarrow> Ka_Ks r = PosInf)
           \<and> (\<not> is_zero (mean_Ks r) \<longrightarrow> float_div (mean_Ka r) (mean_Ks r) = Inr (Ka_Ks r))"
proof -
  let ?vals = "group_vals (gA, gB) results"
  obtain bases where bases: "map (base_row cat a) (build_agg results) = map Inr bases"
    and rows: "aggregate cat a results = Inr (concat (map rows_of_base bases))"
    using aggregate_bases by blast
  from base_row_ok [OF assms, of cat a gA gB] obtain m_ka m_ks ratio where
    ka: "float_div (py_sum (map fst ?vals)) (float_of_nat (length ?vals)) = Inr m_ka" and
    ks: "float_div (py_sum (map snd ?vals)) (float_of_nat (length ?vals)) = Inr m_ks" and
    z: "is_zero m_ks \<longrightarrow> ratio = PosInf" and
    nz: "\<not> is_zero m_ks \<longrightarrow> float_div m_ka m_ks = Inr ratio" and
    b: "base_row cat a ((gA, gB), ?vals) =
             Inr \<lparr>Group_A = gA, Group_B = gB,
                  Continent_A = country_to_continent cat gA,
                  Continent_B = country_to_continent cat gB,
                  mean_Ka = m_ka, mean_Ks = m_ks, Ka_Ks = ratio,
                  pairs = int (length ?vals),
                  gene = args_gene a, start = args_start a, stop = args_stop a\<rparr>"
    by blast
  let ?b = "\<lparr>Group_A = gA, Group_B = gB,
                  Continent_A = country_to_continent cat gA,
                  Continent_B = country_to_continent cat gB,
                  mean_Ka = m_ka, mean_Ks = m_ks, Ka_Ks = ratio,
                  pairs = int (length ?vals),
                  gene = args_gene a, start = args_start a, stop = args_stop a\<rparr>"
  have "((gA, gB), ?vals) \<in> set (build_agg results)"
    using assms by (auto simp: build_agg_groups group_vals_nonempty_iff)
  then have "Inr ?b \<in> set (map (base_row cat a) (build_agg results))"
    using b by (metis image_eqI set_map)
  then have "?b \<in> set bases"
    unfolding bases by auto
  then have "?b \<in> set (concat (map rows_of_base bases))"
    by (auto simp: rows_of_base_def)
  with rows ka ks z nz show ?thesis
    by (intro exI [of _ "concat (map rows_of_base bases)"] exI [of _ ?b]) simp
qed

lemmas float_eval = round_binary64_def floor_log2_def pow2_def round_half_even_def Let_def

lemma float_literals:
  "round_binary64 (1 / 10) = Finite (3602879701896397 / 36028797018963968)"
  "round_binary64 (2 / 10) = Finite (3602879701896397 / 18014398509481984)"
  "round_binary64 (3 / 10) = Finite (5404319552844595 / 18014398509481984)"
  "round_binary64 (4 / 10) = Finite (3602879701896397 / 9007199254740992)"
  "round_binary64 3 = Finite 3"
  by (simp_all add: float_eval)

lemma float_of_nat_2: "float_of_nat 2 = Finite 2"
  by (simp add: float_of_nat_def float_eval)

lemma float_of_nat_3: "float_of_nat 3 = Finite 3"
  by (simp add: float_of_nat_def float_eval)

lemma example_sum_ka:
  "py_sum [Finite (3602879701896397 / 18014398509481984),
           Finite (3602879701896397 / 9007199254740992)] =
     Finite (1351079888211149 / 2251799813685248)"
  by (simp add: py_sum_def float_eval)

lemma example_sum_ks:
  "py_sum [Finite (3602879701896397 / 36028797018963968),
           Finite (3602879701896397 / 36028797018963968)] =
     Finite (3602879701896397 / 18014398509481984)"
  by (simp add: py_sum_def float_eval)

lemmas float_div_eval = float_div_def is_zero_def is_inf_def sign_bit_def signed_zero_def
  signed_inf_def

lemma example_mean_ka:
  "float_div (Finite (1351079888211149 / 2251799813685248)) (Finite 2) =
     Inr (Finite (1351079888211149 / 4503599627370496))"
  by (simp add: float_div_eval float_eval)

lemma example_mean_ks:
  "float_div (Finite (3602879701896397 / 18014398509481984)) (Finite 2) =
     Inr (Finite (3602879701896397 / 36028797018963968))"
  by (simp add: float_div_eval float_eval)

lemma example_ratio:
  "float_div (Finite (1351079888211149 / 4503599627370496))
             (Finite (3602879701896397 / 36028797018963968)) =
     Inr (Finite (6755399441055745 / 2251799813685248))"
  by (simp add: float_div_eval float_eval)

lemma continent_A_B:
  "country_to_continent sample_catalog ''A'' = ''Unknown''"
  "country_to_continent sample_catalog ''B'' = ''Unknown''"
  by (simp_all add: country_to_continent_def continent_lookup_def sample_catalog_def
      sample_lookup_def char_class_defs)

lemma build_agg_example:
  "build_agg example_results =
     [((''A'', ''B''),
       [(Finite (3602879701896397 / 18014398509481984),
         Finite (3602879701896397 / 36028797018963968)),
        (Finite (3602879701896397 / 9007199254740992),
         Finite (3602879701896397 / 36028797018963968))])]"
  unfolding example_results_def float_literals
  by (simp add: build_agg_def agg_step_def)

lemma aggregate_example:
  "aggregate sample_catalog sample_args example_results =
     Inr [example_row, mirror_row example_row]"
  by (simp add: aggregate_def build_agg_example emit_rows_def base_row_def float_of_nat_2
      example_sum_ka example_sum_ks example_mean_ka example_mean_ks example_ratio
      is_zero_def continent_A_B example_row_def sample_args_def numeral_2_eq_2 [symmetric])

text \<open>
  Claim C2, as stated, in its example: the results \<open>(A, B, 0.2, 0.1)\<close> and
  \<open>(A, B, 0.4, 0.1)\<close> give the mean \<open>Ka\<close> 0.3 and the ratio 3.0. It fails: the mean is
  the binary64 sum \<open>0.2 + 0.4 = 0.6000000000000001\<close> divided by 2, a float other than
  0.3, and the ratio is a float other than 3.0.
\<close>

theorem aggregate_example_counterexample:
  "aggregate sample_catalog sample_args example_results =
     Inr [example_row, mirror_row example_row]
   \<and> mean_Ka example_row \<noteq> round_binary64 (3 / 10)
   \<and> Ka_Ks example_row \<noteq> round_binary64 3"
  unfolding float_literals
  by (simp add: aggregate_example example_row_def)

lemma bases_keys:
  "map (base_row cat a) ag = map Inr bases \<Longrightarrow>
     map (\<lambda>b. (Group_A b, Group_B b)) bases = map fst ag"
proof (induction ag arbitrary: bases)
  case Nil
  then show ?case by simp
next
  case (Cons g gs)
  then obtain b bs where bases: "bases = b # bs" "base_row cat a g = Inr b"
    "map (base_row cat a) gs = map Inr bs"
    by (cases bases) auto
  obtain gA gB vals where g: "g = ((gA, gB), vals)"
    by (cases g) auto
  from base_row_labels [of cat a gA gB vals b] bases(2)
  have "(Group_A b, Group_B b) = fst g"
    by (simp add: g)
  then show ?case
    using Cons.IH [OF bases(3)] by (simp add: bases(1))
qed

lemma bases_continents:
  "map (base_row cat a) ag = map Inr bases \<Longrightarrow> b \<in> set bases \<Longrightarrow>
     Continent_A b = country_to_continent cat (Group_A b)
     \<and> Continent_B b = country_to_continent cat (Group_B b)"
proof (induction ag arbitrary: bases)
  case Nil
  then show ?case by simp
next
  case (Cons g gs)
  then obtain b' bs where bases: "bases = b' # bs" "base_row cat a g = Inr b'"
    "map (base_row cat a) gs = map Inr bs"
    by (cases bases) auto
  obtain gA gB vals where g: "g = ((gA, gB), vals)"
    by (cases g) auto
  from base_row_labels [of cat a gA gB vals b'] bases(2)
  have "Continent_A b' = country_to_continent cat (Group_A b')
     \<and> Continent_B b' = country_to_continent cat (Group_B b')"
    by (simp add: g)
  then show ?case
    using Cons.IH [OF bases(3)] Cons.prems(2) by (auto simp: bases(1))
qed

lemma agg_keys_build_agg: "map fst (build_agg results) = agg_keys results"
  by (simp add: build_agg_groups comp_def)

text \<open>
  Claim C3: the output is the concatenation, over the aggregates in dictionary order, of the
  rows of each: the computed row, followed when the two groups differ by its mirror, which
  swaps the groups and the continents and keeps every other field; one row when the groups
  are equal. Hence the mirror of every row of the output is a row of the output.
\<close>

theorem aggregate_mirror_rows:
  "\<exists>bases. map (base_row cat a) (build_agg results) = map Inr bases
      \<and> map (\<lambda>b. (Group_A b, Group_B b)) bases = agg_keys results
      \<and> aggregate cat a results = Inr (concat (map rows_of_base bases))
      \<and> (\<forall>b \<in> set bases.
            (Group_A b \<noteq> Group_B b \<longrightarrow> rows_of_base b = [b, mirror_row b])
          \<and> (Group_A b = Group_B b \<longrightarrow> rows_of_base b = [b])
          \<and> mirror_row b =
               \<lparr>Group_A = Group_B b, Group_B = Group_A b,
                Continent_A = Continent_B b, Continent_B = Continent_A b,
                mean_Ka = mean_Ka b, mean_Ks = mean_Ks b, Ka_Ks = Ka_Ks b, pairs = pairs b,
                gene = gene b, start = start b, stop = stop b\<rparr>)
      \<and> (\<forall>r \<in> set (concat (map rows_of_base bases)).
            mirror_row r \<in> set (concat (map rows_of_base bases)))"
proof -
  obtain bases where bases: "map (base_row cat a) (build_agg results) = map Inr bases"
    and rows: "aggregate cat a results = Inr (concat (map rows_of_base bases))"
    using aggregate_bases by blast
  have keys: "map (\<lambda>b. (Group_A b, Group_B b)) bases = agg_keys results"
    using bases_keys [OF bases] by (simp add: agg_keys_build_agg)
  have emit: "\<forall>b \<in> set bases.
            (Group_A b \<noteq> Group_B b \<longrightarrow> rows_of_base b = [b, mirror_row b])
          \<and> (Group_A b = Group_B b \<longrightarrow> rows_of_base b = [b])
          \<and> mirror_row b =
               \<lparr>Group_A = Group_B b, Group_B = Group_A b,
                Continent_A = Continent_B b, Continent_B = Continent_A b,
                mean_Ka = mean_Ka b, mean_Ks = mean_Ks b, Ka_Ks = Ka_Ks b, pairs = pairs b,
                gene = gene b, start = start b, stop = stop b\<rparr>"
    by (simp add: rows_of_base_def mirror_row_fields)
  have sym: "\<forall>r \<in> set (concat (map rows_of_base bases)).
            mirror_row r \<in> set (concat (map rows_of_base bases))"
  proof
    fix r assume "r \<in> set (concat (map rows_of_base bases))"
    then obtain b where b: "b \<in> set bases" "r \<in> set (rows_of_base b)"
      by auto
    from bases_continents [OF bases b(1)]
    have "Group_A b = Group_B b \<longrightarrow> Continent_A b = Continent_B b"
      by auto
    from mirror_in_rows_of_base [OF this b(2)] b(1)
    show "mirror_row r \<in> set (concat (map rows_of_base bases))"
      by auto
  qed
  from bases keys rows emit sym show ?thesis
    by blast
qed

lemma agg_keys_mirror_example:
  "agg_keys mirror_example = [(''Malaysia'', ''Kenya''), (''Kenya'', ''Kenya'')]"
  by (simp add: agg_keys_def mirror_example_def successes_def result_label_def)

theorem aggregate_mirror_rows_witness:
  "\<exists>bases. map (base_row sample_catalog sample_args) (build_agg mirror_example) = map Inr bases
      \<and> map (\<lambda>b. (Group_A b, Group_B b)) bases = [(''Malaysia'', ''Kenya''), (''Kenya'', ''Kenya'')]
      \<and> aggregate sample_catalog sample_args mirror_example =
           Inr (concat (map rows_of_base bases))
      \<and> (\<forall>b \<in> set bases.
            (Group_A b \<noteq> Group_B b \<longrightarrow> rows_of_base b = [b, mirror_row b])
          \<and> (Group_A b = Group_B b \<longrightarrow> rows_of_base b = [b])
          \<and> mirror_row b =
               \<lparr>Group_A = Group_B b, Group_B = Group_A b,
                Continent_A = Continent_B b, Continent_B = Continent_A b,
                mean_Ka = mean_Ka b, mean_Ks = mean_Ks b, Ka_Ks = Ka_Ks b, pairs = pairs b,
                gene = gene b, start = start b, stop = stop b\<rparr>)
      \<and> (\<forall>r \<in> set (concat (map rows_of_base bases)).
            mirror_row r \<in> set (concat (map rows_of_base bases)))"
  using aggregate_mirror_rows [of sample_catalog sample_args mirror_example]
  by (simp only: agg_keys_mirror_example)

lemma group_vals_example:
  "group_vals (''A'', ''B'') example_results =
     [(Finite (3602879701896397 / 18014398509481984),
       Finite (3602879701896397 / 36028797018963968)),
      (Finite (3602879701896397 / 9007199254740992),
       Finite (3602879701896397 / 36028797018963968))]"
  unfolding example_results_def float_literals
  by (simp add: group_vals_def successes_def result_label_def result_vals_def)

text \<open>
  Claim C2, amended: for every label with at least one result, the output has a row with
  that label whose mean \<open>Ka\<close> and mean \<open>Ks\<close> are the floating-point sums of the group's
  values, in arrival order, divided by their number, whose count is that number, and whose
  ratio is positive infinity when the mean \<open>Ks\<close> equals 0 and the floating-point quotient
  of the means otherwise; no division raises. In particular the results
  \<open>(A, B, 0.2, 0.1)\<close> and \<open>(A, B, 0.4, 0.1)\<close> give a row and its mirror with the mean
  \<open>Ka\<close> 0.30000000000000004, the mean \<open>Ks\<close> 0.1, the ratio 3.0000000000000004 and
  2 pairs.
\<close>

theorem aggregate_group_mean:
  "(group_vals (gA, gB) results \<noteq> [] \<longrightarrow>
      (\<exists>rows r. aggregate cat a results = Inr rows \<and> r \<in> set rows
           \<and> Group_A r = gA \<and> Group_B r = gB
           \<and> float_div (py_sum (map fst (group_vals (gA, gB) results)))
                 (float_of_nat (length (group_vals (gA, gB) results))) = Inr (mean_Ka r)
           \<and> float_div (py_sum (map snd (group_vals (gA, gB) results)))
                 (float_of_nat (length (group_vals (gA, gB) results))) = Inr (mean_Ks r)
           \<and> pairs r = int (length (group_vals (gA, gB) results))
           \<and> (is_zero (mean_Ks r) \<longrightarrow> Ka_Ks r = PosInf)
           \<and> (\<not> is_zero (mean_Ks r) \<longrightarrow> float_div (mean_Ka r) (mean_Ks r) = Inr (Ka_Ks r))))
   \<and> (\<exists>r. aggregate cat a example_results = Inr [r, mirror_row r]
         \<and> Group_A r = ''A'' \<and> Group_B r = ''B''
         \<and> mean_Ka r = Finite (1351079888211149 / 4503599627370496)
         \<and> mean_Ks r = Finite (3602879701896397 / 36028797018963968)
         \<and> Ka_Ks r = Finite (6755399441055745 / 2251799813685248)
         \<and> pairs r = 2)"
proof (intro conjI impI)
  assume "group_vals (gA, gB) results \<noteq> []"
  then show "\<exists>rows r. aggregate cat a results = Inr rows \<and> r \<in> set rows
           \<and> Group_A r = gA \<and> Group_B r = gB
           \<and> float_div (py_sum (map fst (group_vals (gA, gB) results)))
                 (float_of_nat (length (group_vals (gA, gB) results))) = Inr (mean_Ka r)
           \<and> float_div (py_sum (map snd (group_vals (gA, gB) results)))
                 (float_of_nat (length (group_vals (gA, gB) results))) = Inr (mean_Ks r)
           \<and> pairs r = int (length (group_vals (gA, gB) results))
           \<and> (is_zero (mean_Ks r) \<longrightarrow> Ka_Ks r = PosInf)
           \<and> (\<not> is_zero (mean_Ks r) \<longrightarrow> float_div (mean_Ka r) (mean_Ks r) = Inr (Ka_Ks r))"
    by (rule group_row_in_aggregate)
next
  show "\<exists>r. aggregate cat a example_results = Inr [r, mirror_row r]
         \<and> Group_A r = ''A'' \<and> Group_B r = ''B''
         \<and> mean_Ka r = Finite (1351079888211149 / 4503599627370496)
         \<and> mean_Ks r = Finite (3602879701896397 / 36028797018963968)
         \<and> Ka_Ks r = Finite (6755399441055745 / 2251799813685248)
         \<and> pairs r = 2"
    by (simp add: aggregate_def build_agg_example emit_rows_def base_row_def float_of_nat_2
        example_sum_ka example_sum_ks example_mean_ka example_mean_ks example_ratio
        is_zero_def numeral_2_eq_2 [symmetric])
qed

theorem aggregate_group_mean_witness:
  "group_vals (''A'', ''B'') example_results \<noteq> []
   \<and> (\<exists>rows r. aggregate sample_catalog sample_args example_results = Inr rows \<and> r \<in> set rows
           \<and> Group_A r = ''A'' \<and> Group_B r = ''B''
           \<and> float_div (py_sum (map fst (group_vals (''A'', ''B'') example_results)))
                 (float_of_nat (length (group_vals (''A'', ''B'') example_results)))
                = Inr (mean_Ka r)
           \<and> pairs r = int (length (group_vals (''A'', ''B'') example_results)))"
proof -
  have ne: "group_vals (''A'', ''B'') example_results \<noteq> []"
    by (simp add: group_vals_example)
  from aggregate_group_mean
         [of "''A''" "''B''" example_results sample_catalog sample_args] ne
  show ?thesis
    by blast
qed

lemma make_rows_total:
  "\<forall>g \<in> set ag. \<exists>rs. emit_rows cat a g = Inr rs \<Longrightarrow>
     make_rows cat a ag =
       Inr (concat (map (\<lambda>g. case emit_rows cat a g of Inr rs \<Rightarrow> rs | Inl e \<Rightarrow> []) ag))"
  by (induction ag) auto

lemma emit_rows_ok: "vals \<noteq> [] \<Longrightarrow> \<exists>rs. emit_rows cat a (k, vals) = Inr rs"
proof -
  assume v: "vals \<noteq> []"
  obtain gA gB where k: "k = (gA, gB)" by (cases k)
  from base_row_ok [OF v, of cat a gA gB] obtain b where "base_row cat a (k, vals) = Inr b"
    unfolding k by blast
  then show ?thesis
    by (simp add: emit_rows_def)
qed

lemma aggregate_by_keys:
  "aggregate cat a results =
     Inr (concat (map (\<lambda>k. case emit_rows cat a (k, group_vals k results) of
                              Inr rs \<Rightarrow> rs | Inl e \<Rightarrow> [])
                   (agg_keys results)))"
proof -
  have "\<forall>g \<in> set (build_agg results). \<exists>rs. emit_rows cat a g = Inr rs"
    using build_agg_vals_nonempty emit_rows_ok by (metis prod.exhaust)
  from make_rows_total [OF this] show ?thesis
    by (simp add: aggregate_def build_agg_groups comp_def)
qed

lemma mset_concat_map_cong:
  assumes "mset ks' = mset ks" and "\<And>k. k \<in> set ks \<Longrightarrow> G' k = G k"
  shows "mset (concat (map G' ks')) = mset (concat (map G ks))"
proof -
  have "mset (concat (map G' ks')) = (\<Sum>k \<in># mset ks'. mset (G' k))"
    by (simp add: mset_concat comp_def flip: sum_mset_sum_list)
  also have "\<dots> = (\<Sum>k \<in># mset ks. mset (G' k))"
    by (simp add: assms(1))
  also have "\<dots> = (\<Sum>k \<in># mset ks. mset (G k))"
    by (rule arg_cong [where f = sum_mset], rule image_mset_cong) (simp add: assms(2))
  also have "\<dots> = mset (concat (map G ks))"
    by (simp add: mset_concat comp_def flip: sum_mset_sum_list)
  finally show ?thesis .
qed

lemma mset_successes:
  "mset results' = mset results \<Longrightarrow> mset (successes results') = mset (successes results)"
  unfolding successes_def by (rule mset_concat_map_cong) simp_all

lemma mset_agg_keys:
  assumes "mset results' = mset results"
  shows "mset (agg_keys results') = mset (agg_keys results)"
proof -
  have "set (successes results') = set (successes results)"
    using mset_successes [OF assms] by (rule mset_eq_setD)
  then have "set (agg_keys results') = set (agg_keys results)"
    by (simp add: agg_keys_def)
  then show ?thesis
    by (simp add: agg_keys_def flip: set_eq_iff_mset_eq_distinct)
qed

lemma length_group_vals:
  assumes "mset results' = mset results"
  shows "length (group_vals k results') = length (group_vals k results)"
proof -
  have "mset (filter (\<lambda>r. result_label r = k) (successes results')) =
        mset (filter (\<lambda>r. result_label r = k) (successes results))"
    by (simp add: mset_successes [OF assms])
  then have "length (filter (\<lambda>r. result_label r = k) (successes results')) =
        length (filter (\<lambda>r. result_label r = k) (successes results))"
    by (rule mset_eq_length)
  then show ?thesis
    by (simp add: group_vals_def)
qed

lemma emit_rows_labels:
  assumes "emit_rows cat a (k, vals) = Inr rs" and "emit_rows cat a (k, vals') = Inr rs'"
    and "length vals' = length vals"
  shows "map row_labels rs' = map row_labels rs"
proof -
  obtain gA gB where k: "k = (gA, gB)" by (cases k)
  from assms(1) obtain b where b: "base_row cat a ((gA, gB), vals) = Inr b"
    and rs: "rs = (if gA \<noteq> gB then [b, mirror_row b] else [b])"
    by (auto simp: emit_rows_def k split: sum.splits)
  from assms(2) obtain b' where b': "base_row cat a ((gA, gB), vals') = Inr b'"
    and rs': "rs' = (if gA \<noteq> gB then [b', mirror_row b'] else [b'])"
    by (auto simp: emit_rows_def k split: sum.splits)
  from base_row_labels [OF b] base_row_labels [OF b'] assms(3)
  have "row_labels b' = row_labels b" "row_labels (mirror_row b') = row_labels (mirror_row b)"
    by (simp_all add: row_labels_def mirror_row_def)
  then show ?thesis
    by (simp add: rs rs')
qed

text \<open>
  Claim C9, amended: for a permutation of the results, both outputs exist and have, up to
  the order of the rows, the same labels, continents, pair counts and passthrough fields;
  when the permutation keeps the order of arrival inside every group, the outputs are the
  same up to the order of the rows.
\<close>

theorem aggregate_permutation:
  assumes "mset results' = mset results"
  shows "\<exists>rows rows'. aggregate cat a results = Inr rows \<and> aggregate cat a results' = Inr rows'
           \<and> mset (map row_labels rows') = mset (map row_labels rows)
           \<and> ((\<forall>k. group_vals k results' = group_vals k results) \<longrightarrow> mset rows' = mset rows)"
proof -
  let ?R = "\<lambda>rs k. case emit_rows cat a (k, group_vals k rs) of Inr rows \<Rightarrow> rows | Inl e \<Rightarrow> []"
  let ?rows = "concat (map (?R results) (agg_keys results))"
  let ?rows' = "concat (map (?R results') (agg_keys results'))"
  have keys: "mset (agg_keys results') = mset (agg_keys results)"
    by (rule mset_agg_keys [OF assms])
  have labels: "map row_labels (?R results' k) = map row_labels (?R results k)"
    if "k \<in> set (agg_keys results)" for k
  proof -
    from that have ne: "group_vals k results \<noteq> []"
      by (simp add: group_vals_nonempty_iff)
    have len: "length (group_vals k results') = length (group_vals k results)"
      by (rule length_group_vals [OF assms])
    with ne have ne': "group_vals k results' \<noteq> []"
      by auto
    from emit_rows_ok [OF ne, of cat a k] obtain rs
      where rs: "emit_rows cat a (k, group_vals k results) = Inr rs" by blast
    from emit_rows_ok [OF ne', of cat a k] obtain rs'
      where rs': "emit_rows cat a (k, group_vals k results') = Inr rs'" by blast
    from emit_rows_labels [OF rs rs' len] show ?thesis
      by (simp add: rs rs')
  qed
  have "mset (map row_labels ?rows') = mset (map row_labels ?rows)"
    unfolding map_concat map_map
    by (rule mset_concat_map_cong [OF keys]) (simp add: labels)
  moreover have "mset ?rows' = mset ?rows" if "\<forall>k. group_vals k results' = group_vals k results"
    by (rule mset_concat_map_cong [OF keys]) (simp add: that)
  ultimately show ?thesis
    using aggregate_by_keys [of cat a results] aggregate_by_keys [of cat a results']
    by blast
qed

lemma float_of_nat_1: "float_of_nat (Suc 0) = Finite 1"
  by (simp add: float_of_nat_def float_eval)

lemma sample_continents:
  "country_to_continent sample_catalog ''Malaysia'' = ''Asia''"
  "country_to_continent sample_catalog ''Kenya'' = ''Africa''"
  by (simp_all add: country_to_continent_def continent_lookup_def sample_catalog_def
      sample_lookup_def char_class_defs)

lemma single_unit_row:
  "base_row cat a ((gA, gB), [(Finite 1, Finite 1)]) =
     Inr \<lparr>Group_A = gA, Group_B = gB,
          Continent_A = country_to_continent cat gA, Continent_B = country_to_continent cat gB,
          mean_Ka = Finite 1, mean_Ks = Finite 1, Ka_Ks = Finite 1, pairs = 1,
          gene = args_gene a, start = args_start a, stop = args_stop a\<rparr>"
  by (simp add: base_row_def py_sum_def float_of_nat_1 float_div_eval float_eval)

lemma aggregate_order_example:
  "aggregate sample_catalog sample_args order_example =
     Inr [\<lparr>Group_A = ''Malaysia'', Group_B = ''Malaysia'',
           Continent_A = ''Asia'', Continent_B = ''Asia'',
           mean_Ka = Finite 1, mean_Ks = Finite 1, Ka_Ks = Finite 1, pairs = 1,
           gene = None, start = None, stop = None\<rparr>,
          \<lparr>Group_A = ''Kenya'', Group_B = ''Kenya'',
           Continent_A = ''Africa'', Continent_B = ''Africa'',
           mean_Ka = Finite 1, mean_Ks = Finite 1, Ka_Ks = Finite 1, pairs = 1,
           gene = None, start = None, stop = None\<rparr>]"
  by (simp add: aggregate_def build_agg_def agg_step_def order_example_def emit_rows_def
      single_unit_row sample_continents sample_args_def)

lemma aggregate_rev_order_example:
  "aggregate sample_catalog sample_args (rev order_example) =
     Inr [\<lparr>Group_A = ''Kenya'', Group_B = ''Kenya'',
           Continent_A = ''Africa'', Continent_B = ''Africa'',
           mean_Ka = Finite 1, mean_Ks = Finite 1, Ka_Ks = Finite 1, pairs = 1,
           gene = None, start = None, stop = None\<rparr>,
          \<lparr>Group_A = ''Malaysia'', Group_B = ''Malaysia'',
           Continent_A = ''Asia'', Continent_B = ''Asia'',
           mean_Ka = Finite 1, mean_Ks = Finite 1, Ka_Ks = Finite 1, pairs = 1,
           gene = None, start = None, stop = None\<rparr>]"
  by (simp add: aggregate_def build_agg_def agg_step_def order_example_def emit_rows_def
      single_unit_row sample_continents sample_args_def)

lemma sum_example_forward:
  "py_sum [Finite (3602879701896397 / 36028797018963968),
           Finite (3602879701896397 / 18014398509481984),
           Finite (5404319552844595 / 18014398509481984)] =
     Finite (1351079888211149 / 2251799813685248)"
  by (simp add: py_sum_def float_eval)

lemma sum_example_backward:
  "py_sum [Finite (5404319552844595 / 18014398509481984),
           Finite (3602879701896397 / 18014398509481984),
           Finite (3602879701896397 / 36028797018963968)] =
     Finite (5404319552844595 / 9007199254740992)"
  by (simp add: py_sum_def float_eval)

lemma sum_example_mean_forward:
  "float_div (Finite (1351079888211149 / 2251799813685248)) (Finite 3) =
     Inr (Finite (7205759403792795 / 36028797018963968))"
  by (simp add: float_div_eval float_eval)

lemma sum_example_mean_backward:
  "float_div (Finite (5404319552844595 / 9007199254740992)) (Finite 3) =
     Inr (Finite (7205759403792793 / 36028797018963968))"
  by (simp add: float_div_eval float_eval)

lemma sum_example_ks:
  "py_sum [Finite 1, Finite 1, Finite 1] = Finite 3"
  "float_div (Finite 3) (Finite 3) = Inr (Finite 1)"
  "float_div (Finite (7205759403792795 / 36028797018963968)) (Finite 1) =
     Inr (Finite (7205759403792795 / 36028797018963968))"
  "float_div (Finite (7205759403792793 / 36028797018963968)) (Finite 1) =
     Inr (Finite (7205759403792793 / 36028797018963968))"
  by (simp_all add: py_sum_def float_div_eval float_eval)

lemma aggregate_sum_example:
  "aggregate sample_catalog sample_args sum_example =
     Inr [\<lparr>Group_A = ''Kenya'', Group_B = ''Kenya'',
           Continent_A = ''Africa'', Continent_B = ''Africa'',
           mean_Ka = Finite (7205759403792795 / 36028797018963968),
           mean_Ks = Finite 1, Ka_Ks = Finite (7205759403792795 / 36028797018963968),
           pairs = 3, gene = None, start = None, stop = None\<rparr>]"
  unfolding sum_example_def float_literals
  by (simp add: aggregate_def build_agg_def agg_step_def emit_rows_def base_row_def
      sum_example_forward sum_example_mean_forward sum_example_ks float_of_nat_3
      is_zero_def sample_continents sample_args_def numeral_3_eq_3 [symmetric])

lemma aggregate_rev_sum_example:
  "aggregate sample_catalog sample_args (rev sum_example) =
     Inr [\<lparr>Group_A = ''Kenya'', Group_B = ''Kenya'',
           Continent_A = ''Africa'', Continent_B = ''Africa'',
           mean_Ka = Finite (7205759403792793 / 36028797018963968),
           mean_Ks = Finite 1, Ka_Ks = Finite (7205759403792793 / 36028797018963968),
           pairs = 3, gene = None, start = None, stop = None\<rparr>]"
  unfolding sum_example_def float_literals
  by (simp add: aggregate_def build_agg_def agg_step_def emit_rows_def base_row_def
      sum_example_backward sum_example_mean_backward sum_example_ks float_of_nat_3
      is_zero_def sample_continents sample_args_def numeral_3_eq_3 [symmetric])

text \<open>
  Claim C9, as stated: every permutation of the results gives the same output table. It
  fails twice over: the rows come in order of first arrival of their labels, and a mean is
  a floating-point sum in arrival order (\<open>(0.1 + 0.2) + 0.3\<close> is not \<open>(0.3 + 0.2) + 0.1\<close>),
  so that even a table of a single row changes.
\<close>

theorem aggregate_permutation_counterexample:
  "aggregate sample_catalog sample_args (rev order_example)
     \<noteq> aggregate sample_catalog sample_args order_example
   \<and> aggregate sample_catalog sample_args (rev sum_example)
     \<noteq> aggregate sample_catalog sample_args sum_example"
  by (simp add: aggregate_order_example aggregate_rev_order_example aggregate_sum_example
      aggregate_rev_sum_example)

lemma group_vals_rev_order_example:
  "group_vals k (rev order_example) = group_vals k order_example"
  by (auto simp: group_vals_def successes_def order_example_def result_label_def)

theorem aggregate_permutation_witness:
  "mset (rev order_example) = mset order_example
   \<and> (\<exists>rows rows'. aggregate sample_catalog sample_args order_example = Inr rows
         \<and> aggregate sample_catalog sample_args (rev order_example) = Inr rows'
         \<and> mset (map row_labels rows') = mset (map row_labels rows)
         \<and> mset rows' = mset rows)"
proof -
  have p: "mset (rev order_example) = mset order_example"
    by simp
  from aggregate_permutation [OF p, of sample_catalog sample_args]
    group_vals_rev_order_example p
  show ?thesis
    by blast
qed

section \<open>The main program: properties\<close>

lemma successes_empty_iff: "successes results = [] \<longleftrightarrow> (\<forall>r \<in> set results. r = None)"
  by (induction results) (auto simp: successes_def split: option.splits)

lemma build_agg_empty_iff: "build_agg results = [] \<longleftrightarrow> (\<forall>r \<in> set results. r = None)"
proof -
  have "build_agg results = [] \<longleftrightarrow> set (agg_keys results) = {}"
    by (simp add: build_agg_groups)
  also have "\<dots> \<longleftrightarrow> successes results = []"
    by (simp add: agg_keys_def)
  finally show ?thesis
    by (simp add: successes_empty_iff)
qed

lemma aggregate_successes:
  "aggregate cat a (map Some (successes results)) = aggregate cat a results"
  using build_agg_successes [of results] by (simp add: aggregate_def)

text \<open>
  Claim C7: when no sequence passes the filter, and when every task fails (or there is no
  task), the run exits with status 1 and writes nothing; when at least one task succeeds
  the run writes the output, which is the aggregate of the results and equally the
  aggregate of the successful results alone: a failed task aborts nothing and leaves no
  trace.
\<close>

theorem main_exit_or_output:
  "(load_records cat a fasta = [] \<longrightarrow>
      main cat calc a fasta = Inl (SysExit 1 ''No usable sequences after filtering''))
   \<and> (load_records cat a fasta \<noteq> []
        \<and> (\<forall>t \<in> set (make_tasks a (load_records cat a fasta)). run_kaks_worker calc t = None)
      \<longrightarrow> main cat calc a fasta =
            Inl (SysExit 1 ''KaKs_Calculator produced zero usable results''))
   \<and> (load_records cat a fasta \<noteq> []
        \<and> (\<exists>t \<in> set (make_tasks a (load_records cat a fasta)). run_kaks_worker calc t \<noteq> None)
      \<longrightarrow> (\<exists>out. main cat calc a fasta = Inr out
             \<and> aggregate cat a
                 (map (run_kaks_worker calc) (make_tasks a (load_records cat a fasta)))
                 = Inr (csv_rows out)
             \<and> aggregate cat a
                 (map Some (successes
                    (map (run_kaks_worker calc) (make_tasks a (load_records cat a fasta)))))
                 = Inr (csv_rows out)))"
proof (intro conjI impI)
  assume "load_records cat a fasta = []"
  then show "main cat calc a fasta = Inl (SysExit 1 ''No usable sequences after filtering'')"
    by (simp add: main_def)
next
  assume h: "load_records cat a fasta \<noteq> []
        \<and> (\<forall>t \<in> set (make_tasks a (load_records cat a fasta)). run_kaks_worker calc t = None)"
  then have "build_agg (map (run_kaks_worker calc) (make_tasks a (load_records cat a fasta))) = []"
    by (simp add: build_agg_empty_iff)
  with h show "main cat calc a fasta =
            Inl (SysExit 1 ''KaKs_Calculator produced zero usable results'')"
    by (simp add: main_def Let_def)
next
  let ?results = "map (run_kaks_worker calc) (make_tasks a (load_records cat a fasta))"
  assume h: "load_records cat a fasta \<noteq> []
        \<and> (\<exists>t \<in> set (make_tasks a (load_records cat a fasta)). run_kaks_worker calc t \<noteq> None)"
  then have ne: "build_agg ?results \<noteq> []"
    by (simp add: build_agg_empty_iff)
  obtain rows where rows: "aggregate cat a ?results = Inr rows"
    using aggregate_by_keys [of cat a ?results] by blast
  then have "make_rows cat a (build_agg ?results) = Inr rows"
    by (simp add: aggregate_def)
  with h ne have "main cat calc a fasta =
      Inr \<lparr>csv_rows = rows,
           trimmed_fasta = (if args_save_trimmed_fasta a
                            then Some (map trimmed_entry (load_records cat a fasta)) else None)\<rparr>"
    by (simp add: main_def Let_def)
  with rows show "\<exists>out. main cat calc a fasta = Inr out
             \<and> aggregate cat a ?results = Inr (csv_rows out)
             \<and> aggregate cat a (map Some (successes ?results)) = Inr (csv_rows out)"
    by (simp add: aggregate_successes)
qed

lemma parse_header_samples:
  "parse_header sample_catalog ''Malaysia|2015'' = (''Malaysia'', ''Malaysia'', Year 2015)"
  "parse_header sample_catalog ''Kenya|2016'' = (''Kenya'', ''Kenya'', Year 2016)"
  "parse_header sample_catalog ''Kenya|2017'' = (''Kenya'', ''Kenya'', Year 2017)"
  by (simp_all add: parse_header_def pipe_step_def year_fullmatch_def char_class_defs
      string_defs Let_def normalize_country_def REGION_TO_COUNTRY_def sample_catalog_def
      sample_lookup_def)

lemma n_trimmed_bases:
  "n_trimmed (replicate n (CHR ''C'')) = replicate n (CHR ''C'')"
  "n_trimmed (replicate n (CHR ''G'')) = replicate n (CHR ''G'')"
  by (simp_all add: n_trimmed_def lstrip_def rstrip_def upper_def to_upper_def
      ascii_lowercase_def ascii_uppercase_def)

lemma process_sequence_90_bases:
  "process_sequence (replicate 90 (CHR ''C'')) None None = Some (replicate 90 (CHR ''C''))"
  "process_sequence (replicate 90 (CHR ''G'')) None None = Some (replicate 90 (CHR ''G''))"
  by (simp_all add: process_sequence_def n_trimmed_bases window_def truthy_def framed_def
      Let_def)

lemma load_records_short_fasta: "load_records sample_catalog sample_args short_fasta = []"
proof -
  have "process_sequence ''ATG'' None None = None"
    by (simp add: process_sequence_def n_trimmed_def lstrip_def rstrip_def upper_def
        to_upper_def ascii_lowercase_def ascii_uppercase_def window_def truthy_def framed_def
        Let_def)
  then show ?thesis
    by (simp add: load_records_def short_fasta_def List.map_filter_simps make_record_def
        sample_args_def parse_header_samples)
qed

lemma load_records_sample_fasta:
  "load_records sample_catalog sample_args sample_fasta =
     [\<lparr>rec_id = ''s1'', seq = replicate 90 (CHR ''A''), country = ''Malaysia'',
       continent = ''Asia'', year = Year 2015, subgenotype = ''Unknown''\<rparr>,
      \<lparr>rec_id = ''s2'', seq = replicate 90 (CHR ''C''), country = ''Kenya'',
       continent = ''Africa'', year = Year 2016, subgenotype = ''Unknown''\<rparr>,
      \<lparr>rec_id = ''s3'', seq = replicate 90 (CHR ''G''), country = ''Kenya'',
       continent = ''Africa'', year = Year 2017, subgenotype = ''Unknown''\<rparr>]"
  by (simp add: load_records_def sample_fasta_def List.map_filter_simps make_record_def
      sample_args_def parse_header_samples process_sequence_90_A process_sequence_90_bases sample_continents
      extract_subgenotype_def)

lemma make_tasks_sample_fasta:
  "make_tasks sample_args (load_records sample_catalog sample_args sample_fasta) =
     [(replicate 90 (CHR ''A''), replicate 90 (CHR ''C''), ''Malaysia'', ''Kenya'', 1, ''YN'', False),
      (replicate 90 (CHR ''A''), replicate 90 (CHR ''G''), ''Malaysia'', ''Kenya'', 1, ''YN'', False),
      (replicate 90 (CHR ''C''), replicate 90 (CHR ''G''), ''Kenya'', ''Kenya'', 1, ''YN'', False)]"
  unfolding load_records_sample_fasta
  by (simp add: make_tasks_def countries_of_def Let_def
      cross_tasks_def within_tasks_def seqs_of_def mk_task_def sample_args_def)

lemma run_kaks_worker_failing: "run_kaks_worker failing_calc t = None"
  by (cases t) (simp add: run_kaks_worker_def failing_calc_def)

lemma run_kaks_worker_partial:
  "run_kaks_worker partial_calc
     (replicate 90 (CHR ''A''), replicate 90 (CHR ''C''), ''Malaysia'', ''Kenya'', 1, ''YN'', False)
     = None"
  "run_kaks_worker partial_calc
     (replicate 90 (CHR ''A''), replicate 90 (CHR ''G''), ''Malaysia'', ''Kenya'', 1, ''YN'', False)
     = Some (''Malaysia'', ''Kenya'', Finite 1, Finite 2)"
  "run_kaks_worker partial_calc
     (replicate 90 (CHR ''C''), replicate 90 (CHR ''G''), ''Kenya'', ''Kenya'', 1, ''YN'', False)
     = None"
  by (simp_all add: run_kaks_worker_def partial_calc_def write_fasta_def)

theorem main_exit_or_output_witness:
  "load_records sample_catalog sample_args short_fasta = []
   \<and> main sample_catalog partial_calc sample_args short_fasta =
       Inl (SysExit 1 ''No usable sequences after filtering'')
   \<and> load_records sample_catalog sample_args sample_fasta \<noteq> []
   \<and> (\<forall>t \<in> set (make_tasks sample_args (load_records sample_catalog sample_args sample_fasta)).
         run_kaks_worker failing_calc t = None)
   \<and> main sample_catalog failing_calc sample_args sample_fasta =
       Inl (SysExit 1 ''KaKs_Calculator produced zero usable results'')
   \<and> (\<exists>t \<in> set (make_tasks sample_args (load_records sample_catalog sample_args sample_fasta)).
         run_kaks_worker partial_calc t \<noteq> None)
   \<and> (\<exists>out. main sample_catalog partial_calc sample_args sample_fasta = Inr out
         \<and> aggregate sample_catalog sample_args
             [None, Some (''Malaysia'', ''Kenya'', Finite 1, Finite 2), None] = Inr (csv_rows out)
         \<and> aggregate sample_catalog sample_args
             [Some (''Malaysia'', ''Kenya'', Finite 1, Finite 2)] = Inr (csv_rows out))"
proof -
  have r: "load_records sample_catalog sample_args sample_fasta \<noteq> []"
    by (simp add: load_records_sample_fasta)
  have f: "\<forall>t \<in> set (make_tasks sample_args (load_records sample_catalog sample_args sample_fasta)).
         run_kaks_worker failing_calc t = None"
    by (simp add: run_kaks_worker_failing)
  have p: "\<exists>t \<in> set (make_tasks sample_args (load_records sample_catalog sample_args sample_fasta)).
         run_kaks_worker partial_calc t \<noteq> None"
    by (simp add: make_tasks_sample_fasta run_kaks_worker_partial)
  have res: "map (run_kaks_worker partial_calc)
               (make_tasks sample_args (load_records sample_catalog sample_args sample_fasta)) =
             [None, Some (''Malaysia'', ''Kenya'', Finite 1, Finite 2), None]"
    by (simp add: make_tasks_sample_fasta run_kaks_worker_partial)
  have suc: "successes [None, Some (''Malaysia'', ''Kenya'', Finite 1, Finite 2), None] =
             [(''Malaysia'', ''Kenya'', Finite 1, Finite 2)]"
    by (simp add: successes_def)
  from main_exit_or_output [of sample_catalog sample_args short_fasta partial_calc]
    main_exit_or_output [of sample_catalog sample_args sample_fasta failing_calc]
    main_exit_or_output [of sample_catalog sample_args sample_fasta partial_calc]
    load_records_short_fasta r f p
  show ?thesis
    unfolding res suc list.map by blast
qed

end
